theory Spec2Isabelle
  imports Main "HOL-Library.Sublist"
begin

section \<open>Shared vocabulary of the extension\<close>

text \<open>
  The keys of \<^verbatim>\<open>ConfigKey\<close> (module \<^verbatim>\<open>constants\<close>) that the two components use.
\<close>

datatype ConfigKey =
    ConfigKey_iotHubConnectionString
  | ConfigKey_eventHubConnectionString
  | ConfigKey_eventHubConnectionPath
  | ConfigKey_functionAppId

text \<open>
  What a call can throw: an \<^verbatim>\<open>Error\<close> the component creates itself (with its message),
  a \<^verbatim>\<open>TypeError\<close> of the runtime (a property read on \<^verbatim>\<open>undefined\<close>), or whatever an
  external call (VS Code, the toolkit, the ARM client, the config handler) rejected with.
\<close>

datatype error =
    Error string
  | TypeError
  | External string

text \<open>\<^verbatim>\<open>vscode.QuickPickItem\<close>; an absent field is \<open>None\<close>.\<close>

record QuickPickItem =
  label :: string
  description :: "string option"
  detail :: "string option"

text \<open>
  The object the toolkit's \<^verbatim>\<open>selectIoTHub\<close> and \<^verbatim>\<open>createIoTHub\<close> resolve to, as far as
  \<^verbatim>\<open>provision\<close> reads it: \<^verbatim>\<open>iotHubConnectionString\<close> (absent is \<open>None\<close>) and
  \<^verbatim>\<open>properties.eventHubEndpoints.events\<close> (absent is \<open>None\<close>) with its two fields.
\<close>

record EventHubEndpoint =
  endpoint :: string
  path :: string

record IoTHubInfo =
  iotHubConnectionString :: "string option"
  events :: "EventHubEndpoint option"

text \<open>\<^verbatim>\<open>StringDictionary\<close> of the ARM website client: \<^verbatim>\<open>properties\<close> may be absent.\<close>

record StringDictionary =
  properties :: "(string \<rightharpoonup> string) option"

text \<open>An argument of \<^verbatim>\<open>vscode.commands.executeCommand\<close>.\<close>

datatype Arg =
    Str string
  | Bool bool
  | Undefined
  | Obj "(string \<times> string) list"

text \<open>
  Every call that leaves the component is recorded, in the order in which it is made.
  A \<open>Client\<close> is a \<^verbatim>\<open>WebSiteManagementClient\<close>: the credential and the subscription id it
  was built from.
\<close>

type_synonym Client = "string \<times> string"

datatype Event =
    ShowQuickPick "QuickPickItem list"
  | SelectIoTHub
  | CreateIoTHub
  | ChannelShow
  | ChannelAppendLine string
  | ChannelAppendJSON IoTHubInfo
  | ConfigUpdate ConfigKey string
  | ExistsSync string
  | ExecuteCommand string "Arg list"
  | ListApplicationSettings Client string string
  | UpdateApplicationSettings Client string string StringDictionary
  | SetInterval
  | ClearInterval
  | ConsoleLog
  | LogError string bool
  | ProjectNew
  | ProjectLoad "string option"
  | ProjectProvision
  | ProjectDeploy

text \<open>
  The state a run threads through: the persisted configuration and the calls made so far.
\<close>

record World =
  config :: "ConfigKey \<rightharpoonup> string"
  trace :: "Event list"

type_synonym 'a eff = "World \<Rightarrow> (error + 'a) \<times> World"

definition return_eff :: "'a \<Rightarrow> 'a eff" where
  "return_eff x w = (Inr x, w)"

definition throw :: "error \<Rightarrow> 'a eff" where
  "throw e w = (Inl e, w)"

text \<open>\<^verbatim>\<open>await m\<close> followed by the rest of the body: a rejection skips the rest.\<close>

definition bind_eff :: "'a eff \<Rightarrow> ('a \<Rightarrow> 'b eff) \<Rightarrow> 'b eff" where
  "bind_eff m f w = (case m w of (Inl e, w') \<Rightarrow> (Inl e, w') | (Inr x, w') \<Rightarrow> f x w')"

text \<open>\<^verbatim>\<open>try { m } catch (error) { h(error) }\<close>.\<close>

definition catch_eff :: "'a eff \<Rightarrow> (error \<Rightarrow> 'a eff) \<Rightarrow> 'a eff" where
  "catch_eff m h w = (case m w of (Inl e, w') \<Rightarrow> h e w' | (Inr x, w') \<Rightarrow> (Inr x, w'))"

definition emit :: "Event \<Rightarrow> unit eff" where
  "emit ev w = (Inr (), w\<lparr>trace := trace w @ [ev]\<rparr>)"

text \<open>A call whose outcome the environment decides: it is recorded, then resolves or rejects.\<close>

definition call :: "Event \<Rightarrow> error + 'a \<Rightarrow> 'a eff" where
  "call ev outcome w = (outcome, w\<lparr>trace := trace w @ [ev]\<rparr>)"

text \<open>JavaScript truthiness of a \<^verbatim>\<open>string | undefined\<close>.\<close>

definition truthy :: "string option \<Rightarrow> bool" where
  "truthy s = (case s of None \<Rightarrow> False | Some v \<Rightarrow> v \<noteq> [])"

subsection \<open>The regular expressions\<close>

text \<open>
  The three regular expressions of the source have the shape \<^verbatim>\<open>/LIT([^c]*)/\<close>: a literal
  followed by a group capturing the longest run of characters other than \<open>c\<close>.
  \<open>search lit s\<close> is the rest of \<open>s\<close> after the leftmost occurrence of \<open>lit\<close>, and
  \<open>match_group lit c s\<close> is group 1 of \<^verbatim>\<open>s.match(/LIT([^c]*)/)\<close>, \<open>None\<close> when the match
  is \<^verbatim>\<open>null\<close>.
\<close>

fun search :: "string \<Rightarrow> string \<Rightarrow> string option" where
  "search lit [] = (if lit = [] then Some [] else None)"
| "search lit (x # xs) =
     (if take (length lit) (x # xs) = lit then Some (drop (length lit) (x # xs))
      else search lit xs)"

definition match_group :: "string \<Rightarrow> char \<Rightarrow> string \<Rightarrow> string option" where
  "match_group lit c s = map_option (takeWhile (\<lambda>x. x \<noteq> c)) (search lit s)"

text \<open>
  Modelled from the spec: \<^verbatim>\<open>ConfigHandler\<close> (module \<^verbatim>\<open>configHandler\<close>, not among the
  sources) "persists" config values: \<^verbatim>\<open>update\<close> stores a value under a key unless the
  environment rejects the write, \<^verbatim>\<open>get\<close> reads what is stored (\<^verbatim>\<open>undefined\<close> when nothing is).
\<close>

definition ConfigHandler_update :: "(ConfigKey \<Rightarrow> string \<Rightarrow> error option) \<Rightarrow> ConfigKey \<Rightarrow> string \<Rightarrow> unit eff" where
  "ConfigHandler_update rejects k v w =
     (case rejects k v of
        Some e \<Rightarrow> (Inl e, w\<lparr>trace := trace w @ [ConfigUpdate k v]\<rparr>)
      | None \<Rightarrow> (Inr (), w\<lparr>config := (config w)(k \<mapsto> v), trace := trace w @ [ConfigUpdate k v]\<rparr>))"

definition ConfigHandler_get :: "ConfigKey \<Rightarrow> World \<Rightarrow> string option" where
  "ConfigHandler_get k w = config w k"


section \<open>The environment\<close>

text \<open>
  The Azure account extension's API: each subscription filter with the three fields the
  code reads (\<^verbatim>\<open>subscription.displayName\<close>, \<^verbatim>\<open>subscription.subscriptionId\<close>,
  \<^verbatim>\<open>session.credentials\<close>).
\<close>

record AzureResourceFilter =
  displayName :: string
  subscriptionId :: string
  credentials :: string

record AzureAccount =
  filters :: "AzureResourceFilter list"

text \<open>The toolkit's \<^verbatim>\<open>azureIoTExplorer\<close>: what its two calls resolve to or reject with.\<close>

record Toolkit =
  selectIoTHub :: "error + IoTHubInfo option"
  createIoTHub :: "error + IoTHubInfo option"

text \<open>
  Everything outside the components: how each external call answers. \<open>toolkit\<close> is
  \<^verbatim>\<open>getExtension(extensionName.Toolkit)\<close>, \<open>configRejects\<close> says which config writes fail,
  \<open>rootPath\<close> is \<^verbatim>\<open>vscode.workspace.rootPath\<close> and \<open>logError\<close> says whether
  \<^verbatim>\<open>ExceptionHelper.logError\<close> (not among the sources) throws.
\<close>

record Env =
  showQuickPick :: "QuickPickItem list \<Rightarrow> error + QuickPickItem option"
  toolkit :: "Toolkit option"
  configRejects :: "ConfigKey \<Rightarrow> string \<Rightarrow> error option"
  existsSync :: "string \<Rightarrow> bool"
  executeCommand :: "string \<Rightarrow> Arg list \<Rightarrow> error + string option"
  listApplicationSettings :: "Client \<Rightarrow> string \<Rightarrow> string \<Rightarrow> error + StringDictionary"
  updateApplicationSettings :: "Client \<Rightarrow> string \<Rightarrow> string \<Rightarrow> StringDictionary \<Rightarrow> error option"
  rootPath :: "string option"
  logError :: "string \<Rightarrow> bool \<Rightarrow> error option"

text \<open>The field both component classes hold: whether \<^verbatim>\<open>this.channel\<close> is set.\<close>

record Component =
  channel :: bool

section \<open>IoTHub\<close>

definition provisionIothubSelection :: "QuickPickItem list" where
  "provisionIothubSelection =
     [\<lparr>label = ''Select an existing IoT Hub'',
       description = Some ''Select an existing IoT Hub'',
       detail = Some ''select''\<rparr>,
      \<lparr>label = ''Create a new IoT Hub'',
       description = Some ''Create a new IoT Hub'',
       detail = Some ''create''\<rparr>]"

text \<open>\<^verbatim>\<open>if (this.channel) { this.channel.show(); this.channel.appendLine(..) }\<close>.\<close>

definition channel_say :: "Component \<Rightarrow> Event \<Rightarrow> unit eff" where
  "channel_say this line =
     (if channel this then bind_eff (emit ChannelShow) (\<lambda>_. emit line) else return_eff ())"

text \<open>The \<^verbatim>\<open>switch (selection.detail)\<close> of \<^verbatim>\<open>provision\<close>; \<open>None\<close> is \<^verbatim>\<open>iothub = null\<close>.\<close>

definition IoTHub_switch :: "Component \<Rightarrow> Toolkit \<Rightarrow> string option \<Rightarrow> IoTHubInfo option eff" where
  "IoTHub_switch this tk d =
     (if d = Some ''select'' then call SelectIoTHub (selectIoTHub tk)
      else if d = Some ''create'' then
        bind_eff (channel_say this (ChannelAppendLine ''Creating new IoT Hub...''))
          (\<lambda>_. call CreateIoTHub (createIoTHub tk))
      else return_eff None)"

text \<open>\<^verbatim>\<open>iothub.iotHubConnectionString.match(/SharedAccessKey=([^;]*)/)\<close>, group 1.\<close>

definition sharedAccessKeyMatches :: "string \<Rightarrow> string option" where
  "sharedAccessKeyMatches cs = match_group ''SharedAccessKey='' (CHR '';'') cs"

text \<open>
  The rest of \<^verbatim>\<open>provision\<close>, from \<^verbatim>\<open>if (iothub && iothub.iotHubConnectionString)\<close> on.
  A match has always two elements, so the test on its length never fires.
\<close>

definition IoTHub_store :: "Env \<Rightarrow> Component \<Rightarrow> IoTHubInfo option \<Rightarrow> bool eff" where
  "IoTHub_store env this iothub =
     (case iothub of
        None \<Rightarrow> return_eff False
      | Some hub \<Rightarrow>
          (case iotHubConnectionString hub of
             None \<Rightarrow> throw (Error ''IoT Hub provision failed. Please check output window for detail.'')
           | Some cs \<Rightarrow>
               if cs = [] then
                 throw (Error ''IoT Hub provision failed. Please check output window for detail.'')
               else
                 bind_eff (channel_say this (ChannelAppendJSON hub)) (\<lambda>_.
                 case sharedAccessKeyMatches cs of
                   None \<Rightarrow> throw (Error ''Cannot parse shared access key from IoT Hub connection string. Please retry Azure Provision.'')
                 | Some sharedAccessKey \<Rightarrow>
                     (case events hub of
                        None \<Rightarrow> throw TypeError
                      | Some ev \<Rightarrow>
                          bind_eff (ConfigHandler_update (configRejects env)
                            ConfigKey_iotHubConnectionString cs) (\<lambda>_.
                          bind_eff (ConfigHandler_update (configRejects env)
                            ConfigKey_eventHubConnectionString
                            (''Endpoint='' @ endpoint ev
                              @ '';SharedAccessKeyName=iothubowner;SharedAccessKey=''
                              @ sharedAccessKey)) (\<lambda>_.
                          bind_eff (ConfigHandler_update (configRejects env)
                            ConfigKey_eventHubConnectionPath (path ev)) (\<lambda>_.
                          bind_eff (channel_say this
                            (ChannelAppendLine ''IoT Hub provision succeeded.'')) (\<lambda>_.
                          return_eff True))))))))"

definition IoTHub_provision :: "Env \<Rightarrow> Component \<Rightarrow> bool eff" where
  "IoTHub_provision env this =
     bind_eff (call (ShowQuickPick provisionIothubSelection)
                 (showQuickPick env provisionIothubSelection)) (\<lambda>selection.
     case selection of
       None \<Rightarrow> return_eff False
     | Some sel \<Rightarrow>
         (case toolkit env of
            None \<Rightarrow> throw (Error ''Azure IoT Toolkit is not installed. Please install it from Marketplace.'')
          | Some tk \<Rightarrow>
              bind_eff (IoTHub_switch this tk (detail sel)) (\<lambda>iothub.
              IoTHub_store env this iothub)))"


section \<open>AzureFunctions\<close>

record AzureFunctions = Component +
  azureFunctionsPath :: string
  azureAccountExtension :: "AzureAccount option"

definition getSubscriptionList :: "AzureFunctions \<Rightarrow> error + QuickPickItem list" where
  "getSubscriptionList this =
     (case azureAccountExtension this of
        None \<Rightarrow> Inl (Error ''Azure account extension is not found.'')
      | Some ext \<Rightarrow>
          (let subscriptionList =
                 map (\<lambda>item. \<lparr>label = displayName item,
                               description = Some (subscriptionId item),
                               detail = None\<rparr>) (filters ext)
           in Inr (if length subscriptionList = 0
                   then subscriptionList @
                     [\<lparr>label = ''No subscription found'',
                       description = Some [],
                       detail = Some ''Click Azure account at bottom left corner and choose Select All''\<rparr>]
                   else subscriptionList)))"

text \<open>The \<^verbatim>\<open>for\<close> loop of \<^verbatim>\<open>getCredentialFromSubscriptionId\<close>: the first filter with the id.\<close>

fun find_credentials :: "AzureResourceFilter list \<Rightarrow> string \<Rightarrow> string option" where
  "find_credentials [] sid = None"
| "find_credentials (subscription # rest) sid =
     (if subscriptionId subscription = sid then Some (credentials subscription)
      else find_credentials rest sid)"

definition getCredentialFromSubscriptionId :: "AzureFunctions \<Rightarrow> string \<Rightarrow> error + string option" where
  "getCredentialFromSubscriptionId this sid =
     (case azureAccountExtension this of
        None \<Rightarrow> Inl (Error ''Azure account extension is not found.'')
      | Some ext \<Rightarrow>
          if sid = [] then Inl (Error ''Subscription ID is required.'')
          else Inr (find_credentials (filters ext) sid))"

definition createNewProject_args :: "string \<Rightarrow> Arg list" where
  "createNewProject_args p =
     [Str p, Str ''C#Script'', Str ''~1'', Bool False, Str ''IoTHubTrigger-CSharp'',
      Str ''IoTHubTrigger1'',
      Obj [(''connection'', ''eventHubConnectionString''),
           (''path'', ''%eventHubConnectionPath%''),
           (''consumerGroup'', ''$Default'')]]"

definition AzureFunctions_create :: "Env \<Rightarrow> AzureFunctions \<Rightarrow> bool eff" where
  "AzureFunctions_create env this =
     bind_eff (emit ConsoleLog) (\<lambda>_.
     bind_eff (emit (ExistsSync (azureFunctionsPath this))) (\<lambda>_.
     if \<not> existsSync env (azureFunctionsPath this) then
       throw (Error (''Azure Functions folder doesn't exist: '' @ azureFunctionsPath this))
     else
       catch_eff
         (bind_eff (call (ExecuteCommand ''azureFunctions.createNewProject''
                       (createNewProject_args (azureFunctionsPath this)))
                     (executeCommand env ''azureFunctions.createNewProject''
                       (createNewProject_args (azureFunctionsPath this)))) (\<lambda>_.
          return_eff True))
         (\<lambda>error. throw error)))"

text \<open>\<^verbatim>\<open>v || ''\<close> for a \<^verbatim>\<open>string | undefined\<close>.\<close>

definition or_empty :: "string option \<Rightarrow> string" where
  "or_empty v = (case v of None \<Rightarrow> [] | Some s \<Rightarrow> s)"

text \<open>
  The three assignments to \<^verbatim>\<open>appSettings.properties\<close>, after
  \<^verbatim>\<open>appSettings.properties = appSettings.properties || {}\<close>.
\<close>

definition inject_settings ::
  "StringDictionary \<Rightarrow> string option \<Rightarrow> string option \<Rightarrow> string option \<Rightarrow> StringDictionary" where
  "inject_settings appSettings eventHubConnectionString eventHubConnectionPath iotHubConnString =
     appSettings\<lparr>properties := Some
       ((case properties appSettings of None \<Rightarrow> Map.empty | Some p \<Rightarrow> p)
          (''eventHubConnectionString'' \<mapsto> or_empty eventHubConnectionString,
           ''eventHubConnectionPath'' \<mapsto> or_empty eventHubConnectionPath,
           ''iotHubConnectionString'' \<mapsto> or_empty iotHubConnString))\<rparr>"

text \<open>
  \<^verbatim>\<open>provision\<close> from the test of the two event hub values on; the three values are what
  \<^verbatim>\<open>ConfigHandler.get\<close> returned. The client's constructor is the pairing of its arguments.
\<close>

definition provision_settings ::
  "Env \<Rightarrow> AzureFunctions \<Rightarrow> string \<Rightarrow> string \<Rightarrow> string option \<Rightarrow> string option \<Rightarrow> string option
     \<Rightarrow> bool eff" where
  "provision_settings env this sid functionAppId eventHubConnectionString
       eventHubConnectionPath iotHubConnString =
     (if \<not> truthy eventHubConnectionString \<or> \<not> truthy eventHubConnectionPath then
        throw (Error ''No event hub path or connection string found.'')
      else
        (case getCredentialFromSubscriptionId this sid of
           Inl e \<Rightarrow> throw e
         | Inr None \<Rightarrow>
             throw (Error (''Unable to get credential for the subscription, id:'' @ sid @ ''.''))
         | Inr (Some credential) \<Rightarrow>
             (case match_group ''/resourceGroups/'' (CHR ''/'') functionAppId of
                None \<Rightarrow> throw (Error ''Cannot parse resource group from function app ID.'')
              | Some resourceGroup \<Rightarrow>
                  (case match_group ''/sites/'' (CHR ''/'') functionAppId of
                     None \<Rightarrow> throw (Error ''Cannot parse function app name from function app ID.'')
                   | Some siteName \<Rightarrow>
                       bind_eff (emit ConsoleLog) (\<lambda>_.
                       bind_eff (call (ListApplicationSettings (credential, sid) resourceGroup siteName)
                                   (listApplicationSettings env (credential, sid) resourceGroup siteName))
                         (\<lambda>appSettings.
                       bind_eff (emit ConsoleLog) (\<lambda>_.
                       bind_eff
                         (call (UpdateApplicationSettings (credential, sid) resourceGroup siteName
                            (inject_settings appSettings eventHubConnectionString
                               eventHubConnectionPath iotHubConnString))
                          (case updateApplicationSettings env (credential, sid) resourceGroup siteName
                            (inject_settings appSettings eventHubConnectionString
                               eventHubConnectionPath iotHubConnString)
                           of Some e \<Rightarrow> Inl e | None \<Rightarrow> Inr ()))
                         (\<lambda>_. return_eff True))))))))"

text \<open>\<^verbatim>\<open>provision\<close> from the call of \<^verbatim>\<open>azureFunctions.createFunctionApp\<close> on.\<close>

definition provision_app :: "Env \<Rightarrow> AzureFunctions \<Rightarrow> string \<Rightarrow> bool eff" where
  "provision_app env this sid =
     bind_eff (call (ExecuteCommand ''azureFunctions.createFunctionApp'' [Str sid])
                 (executeCommand env ''azureFunctions.createFunctionApp'' [Str sid]))
       (\<lambda>functionAppId.
     if truthy functionAppId then
       bind_eff (ConfigHandler_update (configRejects env) ConfigKey_functionAppId
                   (or_empty functionAppId)) (\<lambda>_ w.
       provision_settings env this sid (or_empty functionAppId)
         (ConfigHandler_get ConfigKey_eventHubConnectionString w)
         (ConfigHandler_get ConfigKey_eventHubConnectionPath w)
         (ConfigHandler_get ConfigKey_iotHubConnectionString w) w)
     else
       throw (Error ''Unable to create Azure Functions application. Please check the error and retry.''))"

text \<open>
  The promise of \<^verbatim>\<open>getSubscriptionList\<close> is the quick pick's list of items: when it rejects,
  so does the quick pick, and no list is shown.
\<close>

definition AzureFunctions_provision :: "Env \<Rightarrow> AzureFunctions \<Rightarrow> bool eff" where
  "AzureFunctions_provision env this =
     catch_eff
       (case getSubscriptionList this of
          Inl e \<Rightarrow> throw e
        | Inr items \<Rightarrow>
            bind_eff (call (ShowQuickPick items) (showQuickPick env items)) (\<lambda>subscription.
            case subscription of
              None \<Rightarrow> return_eff False
            | Some sub \<Rightarrow>
                if \<not> truthy (description sub) then return_eff False
                else provision_app env this (or_empty (description sub))))
       (\<lambda>error. throw error)"

text \<open>
  The body of both the \<^verbatim>\<open>try\<close> and the \<^verbatim>\<open>catch\<close> of \<^verbatim>\<open>deploy\<close>:
  \<^verbatim>\<open>if (this.channel && deployPendding) { clearInterval(..); this.channel.appendLine('.') }\<close>.
  The timer is set exactly when the channel is.
\<close>

definition deploy_done :: "AzureFunctions \<Rightarrow> unit eff" where
  "deploy_done this =
     (if channel this then bind_eff (emit ClearInterval) (\<lambda>_. emit (ChannelAppendLine ''.''))
      else return_eff ())"

definition deploy_arg :: "string option \<Rightarrow> Arg" where
  "deploy_arg v = (case v of None \<Rightarrow> Undefined | Some s \<Rightarrow> Str s)"

text \<open>The ticks of the interval timer (a dot every second) are not part of the model.\<close>

definition AzureFunctions_deploy :: "Env \<Rightarrow> AzureFunctions \<Rightarrow> bool eff" where
  "AzureFunctions_deploy env this =
     bind_eff
       (if channel this then
          bind_eff (emit ChannelShow) (\<lambda>_.
          bind_eff (emit (ChannelAppendLine ''Deploying Azure Functions App...'')) (\<lambda>_.
          emit SetInterval))
        else return_eff ()) (\<lambda>_.
     catch_eff
       (\<lambda>w.
          bind_eff
            (call (ExecuteCommand ''azureFunctions.deploy''
               [Str (azureFunctionsPath this),
                deploy_arg (ConfigHandler_get ConfigKey_functionAppId w)])
             (executeCommand env ''azureFunctions.deploy''
               [Str (azureFunctionsPath this),
                deploy_arg (ConfigHandler_get ConfigKey_functionAppId w)])) (\<lambda>_.
          bind_eff (emit ConsoleLog) (\<lambda>_.
          bind_eff (deploy_done this) (\<lambda>_.
          return_eff True))) w)
       (\<lambda>error. bind_eff (deploy_done this) (\<lambda>_. throw error)))"

section \<open>AzureOperator\<close>

text \<open>
  Modelled from the spec: \<^verbatim>\<open>IoTProject\<close> (module \<^verbatim>\<open>Models/IoTProject\<close>, "implementation
  not shown") is the project model with \<^verbatim>\<open>load\<close>, \<^verbatim>\<open>provision\<close> and \<^verbatim>\<open>deploy\<close>; its construction
  and a call of one of them are recorded. \<^verbatim>\<open>Provision\<close> does not await them, so what they resolve to
  is dropped.
\<close>

definition AzureOperator_Provision :: "Env \<Rightarrow> unit eff" where
  "AzureOperator_Provision env =
     bind_eff
       (if \<not> truthy (rootPath env) then
          call (LogError ''Unable to find the root path, please open an IoT Studio project'' True)
            (case logError env ''Unable to find the root path, please open an IoT Studio project'' True
             of Some e \<Rightarrow> Inl e | None \<Rightarrow> Inr ())
        else return_eff ()) (\<lambda>_.
     bind_eff (emit ProjectNew) (\<lambda>_.
     bind_eff (emit (ProjectLoad (rootPath env))) (\<lambda>_.
     emit ProjectProvision)))"

definition AzureOperator_Deploy :: "Env \<Rightarrow> unit eff" where
  "AzureOperator_Deploy env = return_eff ()"

section \<open>Runs and their events\<close>

text \<open>The events a computation adds to the trace when it runs from \<open>w\<close>.\<close>

definition run_trace :: "'a eff \<Rightarrow> World \<Rightarrow> Event list" where
  "run_trace m w = drop (length (trace w)) (trace (snd (m w)))"

text \<open>Output to the channel and the console, as opposed to the steps of an operation.\<close>

fun is_output :: "Event \<Rightarrow> bool" where
  "is_output ChannelShow = True"
| "is_output (ChannelAppendLine _) = True"
| "is_output (ChannelAppendJSON _) = True"
| "is_output ConsoleLog = True"
| "is_output _ = False"

fun is_ConfigUpdate :: "Event \<Rightarrow> bool" where
  "is_ConfigUpdate (ConfigUpdate _ _) = True"
| "is_ConfigUpdate _ = False"

text \<open>
  What the environment rejects a recorded external call with (\<open>None\<close>: it resolves, or the
  event is not a call that can reject).
\<close>

fun rejected :: "Env \<Rightarrow> Event \<Rightarrow> error option" where
  "rejected env (ShowQuickPick items) =
     (case showQuickPick env items of Inl e \<Rightarrow> Some e | Inr _ \<Rightarrow> None)"
| "rejected env (ExecuteCommand c args) =
     (case executeCommand env c args of Inl e \<Rightarrow> Some e | Inr _ \<Rightarrow> None)"
| "rejected env (ConfigUpdate k v) = configRejects env k v"
| "rejected env (ListApplicationSettings c rg site) =
     (case listApplicationSettings env c rg site of Inl e \<Rightarrow> Some e | Inr _ \<Rightarrow> None)"
| "rejected env (UpdateApplicationSettings c rg site d) = updateApplicationSettings env c rg site d"
| "rejected env _ = None"

text \<open>
  The steps of a run of \<^verbatim>\<open>IoTHub.provision\<close>: the calls it makes, in their order, output to
  the channel left aside.
\<close>

definition IoTHub_steps :: "Env \<Rightarrow> Component \<Rightarrow> World \<Rightarrow> Event list" where
  "IoTHub_steps env this w =
     filter (\<lambda>e. \<not> is_output e) (run_trace (IoTHub_provision env this) w)"

text \<open>The external calls that can reject: the events \<open>rejected\<close> looks at.\<close>

fun is_call :: "Event \<Rightarrow> bool" where
  "is_call (ShowQuickPick _) = True"
| "is_call (ExecuteCommand _ _) = True"
| "is_call (ConfigUpdate _ _) = True"
| "is_call (ListApplicationSettings _ _ _) = True"
| "is_call (UpdateApplicationSettings _ _ _ _) = True"
| "is_call _ = False"

text \<open>
  An operation propagates rejections when, for every call of its run that the environment
  rejects, the operation's result is that very error, the rejected call is the last call
  of the run, and it was made once.
\<close>

definition propagates :: "Env \<Rightarrow> 'a eff \<Rightarrow> World \<Rightarrow> bool" where
  "propagates env m w =
     (\<forall>ev e. ev \<in> set (run_trace m w) \<and> rejected env ev = Some e \<longrightarrow>
        fst (m w) = Inl e
        \<and> last (filter is_call (run_trace m w)) = ev
        \<and> length (filter (\<lambda>x. x = ev) (run_trace m w)) = 1)"

text \<open>
  The value \<^verbatim>\<open>provision\<close> derives for \<^verbatim>\<open>eventHubConnectionString\<close>, as a function of the
  events endpoint and the shared access key.
\<close>

definition eventHub_string :: "string \<Rightarrow> string \<Rightarrow> string" where
  "eventHub_string ep key =
     ''Endpoint='' @ ep @ '';SharedAccessKeyName=iothubowner;SharedAccessKey='' @ key"

section \<open>Example environments\<close>

definition hub_ok :: IoTHubInfo where
  "hub_ok =
     \<lparr>iotHubConnectionString =
        Some ''HostName=h.azure-devices.net;SharedAccessKeyName=iothubowner;SharedAccessKey=abc='',
      events = Some \<lparr>endpoint = ''sb://e.servicebus.windows.net/'', path = ''hub1''\<rparr>\<rparr>"

definition hub_no_key :: IoTHubInfo where
  "hub_no_key = \<lparr>iotHubConnectionString = Some ''HostName=h'', events = None\<rparr>"

definition pick_first :: "QuickPickItem list \<Rightarrow> error + QuickPickItem option" where
  "pick_first items = (case items of [] \<Rightarrow> Inr None | x # _ \<Rightarrow> Inr (Some x))"

definition env_ok :: Env where
  "env_ok =
     \<lparr>showQuickPick = pick_first,
      toolkit = Some \<lparr>selectIoTHub = Inr (Some hub_ok), createIoTHub = Inr (Some hub_no_key)\<rparr>,
      configRejects = (\<lambda>k v. None),
      existsSync = (\<lambda>p. True),
      executeCommand = (\<lambda>c args.
        if c = ''azureFunctions.createFunctionApp''
        then Inr (Some ''/subscriptions/s1/resourceGroups/rg1/providers/Microsoft.Web/sites/app1'')
        else Inr None),
      listApplicationSettings = (\<lambda>c rg site. Inr \<lparr>properties = Some [''AzureWebJobsStorage'' \<mapsto> ''st'']\<rparr>),
      updateApplicationSettings = (\<lambda>c rg site d. None),
      rootPath = Some ''/home/u/project'',
      logError = (\<lambda>m popup. None)\<rparr>"

definition functions_ok :: AzureFunctions where
  "functions_ok =
     \<lparr>channel = True,
      azureFunctionsPath = ''/home/u/project/Functions'',
      azureAccountExtension =
        Some \<lparr>filters = [\<lparr>displayName = ''Sub One'', subscriptionId = ''s1'', credentials = ''cred1''\<rparr>]\<rparr>\<rparr>"

definition world_empty :: World where
  "world_empty = \<lparr>config = Map.empty, trace = []\<rparr>"

definition world_provisioned :: World where
  "world_provisioned =
     \<lparr>config = [ConfigKey_iotHubConnectionString \<mapsto> ''HostName=h;SharedAccessKey=k'',
                ConfigKey_eventHubConnectionString \<mapsto> ''Endpoint=sb://e/;SharedAccessKeyName=iothubowner;SharedAccessKey=k'',
                ConfigKey_eventHubConnectionPath \<mapsto> ''hub1''],
      trace = []\<rparr>"

section \<open>Properties\<close>

subsection \<open>Running the effects\<close>

lemmas eff_defs = bind_eff_def return_eff_def throw_def emit_def call_def channel_say_def
  catch_eff_def ConfigHandler_update_def ConfigHandler_get_def

subsection \<open>The regular expressions\<close>

lemma search_here: "search lit (lit @ r) = Some r"
proof (cases "lit @ r")
  case Nil
  then show ?thesis by simp
next
  case (Cons a list)
  have "take (length lit) (lit @ r) = lit" and "drop (length lit) (lit @ r) = r"
    by simp_all
  then have "search lit (a # list) = Some r" unfolding Cons by simp
  then show ?thesis using Cons by simp
qed

lemma search_Some_split: "search lit s = Some r \<Longrightarrow> \<exists>p. s = p @ lit @ r"
proof (induction s)
  case Nil
  then show ?case by (auto split: if_splits)
next
  case (Cons x xs)
  show ?case
  proof (cases "take (length lit) (x # xs) = lit")
    case True
    with Cons.prems have "r = drop (length lit) (x # xs)" by simp
    with True have "x # xs = [] @ lit @ r" by (metis append_Nil append_take_drop_id)
    then show ?thesis by blast
  next
    case False
    with Cons.prems have "search lit xs = Some r" by simp
    then obtain p where "xs = p @ lit @ r" using Cons.IH by blast
    then have "x # xs = (x # p) @ lit @ r" by simp
    then show ?thesis by blast
  qed
qed

lemma search_occurs: "\<exists>r. search lit (p @ lit @ q) = Some r"
proof (induction p)
  case Nil
  show ?case by (simp add: search_here)
next
  case (Cons x p)
  then show ?case by auto
qed

text \<open>The match is \<^verbatim>\<open>null\<close> exactly when the literal occurs nowhere in the string.\<close>

lemma search_None_iff: "search lit s = None \<longleftrightarrow> (\<forall>p r. s \<noteq> p @ lit @ r)"
proof
  assume "search lit s = None"
  then show "\<forall>p r. s \<noteq> p @ lit @ r"
    using search_occurs [of lit] by (metis option.distinct(1))
next
  assume "\<forall>p r. s \<noteq> p @ lit @ r"
  then show "search lit s = None"
    using search_Some_split by (cases "search lit s") blast+
qed

lemma search_leftmost:
  "\<forall>i < length p. take (length lit) (drop i (p @ lit @ r)) \<noteq> lit \<Longrightarrow>
   search lit (p @ lit @ r) = Some r"
proof (induction p)
  case Nil
  show ?case by (simp add: search_here)
next
  case (Cons x p)
  have "take (length lit) (drop 0 ((x # p) @ lit @ r)) \<noteq> lit"
    using Cons.prems by blast
  moreover have "\<forall>i < length p. take (length lit) (drop i (p @ lit @ r)) \<noteq> lit"
  proof (intro allI impI)
    fix i assume "i < length p"
    then have "Suc i < length (x # p)" by simp
    then have "take (length lit) (drop (Suc i) ((x # p) @ lit @ r)) \<noteq> lit"
      using Cons.prems by blast
    then show "take (length lit) (drop i (p @ lit @ r)) \<noteq> lit" by simp
  qed
  ultimately show ?case using Cons.IH by simp
qed

text \<open>
  A literal whose first character does not come back in it cannot overlap itself: when
  it does not occur inside \<open>pre\<close>, its occurrence right after \<open>pre\<close> is the leftmost one.
\<close>

lemma no_straddle:
  assumes ne: "lit \<noteq> []" and hd: "hd lit \<notin> set (tl lit)"
    and free: "\<forall>p r. pre \<noteq> p @ lit @ r" and i: "i < length pre"
  shows "take (length lit) (drop i (pre @ lit @ rest)) \<noteq> lit"
proof
  assume eq: "take (length lit) (drop i (pre @ lit @ rest)) = lit"
  show False
  proof (cases "i + length lit \<le> length pre")
    case True
    then have "take (length lit) (drop i (pre @ lit @ rest)) = take (length lit) (drop i pre)"
      by simp
    with eq have "take (length lit) (drop i pre) = lit" by simp
    then have "pre = take i pre @ lit @ drop (length lit) (drop i pre)"
      by (metis append_take_drop_id)
    with free show False by blast
  next
    case False
    define j where "j = length pre - i"
    from False i have j: "0 < j" "j < length lit" "i + j = length pre"
      by (simp_all add: j_def)
    have "lit ! j = take (length lit) (drop i (pre @ lit @ rest)) ! j" using eq by simp
    also have "\<dots> = drop i (pre @ lit @ rest) ! j" using j by (simp only: nth_take)
    also have "\<dots> = (pre @ lit @ rest) ! (i + j)"
      using j i by (simp only: nth_drop length_append)
    also have "\<dots> = (lit @ rest) ! 0" using j by (simp add: nth_append)
    also have "\<dots> = hd lit" using ne by (simp add: nth_append hd_conv_nth)
    finally have "lit ! j = hd lit" .
    moreover have "lit ! j = tl lit ! (j - 1)" using j ne by (simp add: nth_tl)
    moreover have "j - 1 < length (tl lit)" using j by simp
    ultimately have "hd lit \<in> set (tl lit)" by (metis nth_mem)
    with hd show False by simp
  qed
qed

lemma takeWhile_key:
  assumes "c \<notin> set key" and "rest = [] \<or> hd rest = c"
  shows "takeWhile (\<lambda>x. x \<noteq> c) (key @ rest) = key"
proof (cases rest)
  case Nil
  with assms show ?thesis by (auto simp: takeWhile_eq_all_conv)
next
  case (Cons y ys)
  with assms have "y = c" by simp
  with Cons assms show ?thesis by (auto simp: takeWhile_append2 takeWhile_tail)
qed

lemma match_group_leftmost:
  assumes "lit \<noteq> []" "hd lit \<notin> set (tl lit)" "\<forall>p r. pre \<noteq> p @ lit @ r"
    "c \<notin> set key" "rest = [] \<or> hd rest = c"
  shows "match_group lit c (pre @ lit @ key @ rest) = Some key"
proof -
  have "\<forall>i < length pre. take (length lit) (drop i (pre @ lit @ key @ rest)) \<noteq> lit"
    using no_straddle [OF assms(1,2,3)] by blast
  then have "search lit (pre @ lit @ key @ rest) = Some (key @ rest)"
    by (rule search_leftmost)
  then show ?thesis using takeWhile_key [OF assms(4,5)] by (simp add: match_group_def)
qed

lemma sharedAccessKeyMatches_None_iff:
  "sharedAccessKeyMatches cs = None \<longleftrightarrow> (\<forall>p r. cs \<noteq> p @ ''SharedAccessKey='' @ r)"
  by (simp add: sharedAccessKeyMatches_def match_group_def search_None_iff)

subsection \<open>IoTHub.provision\<close>

lemma IoTHub_provision_chosen:
  assumes "showQuickPick env provisionIothubSelection = Inr (Some sel)"
    and "toolkit env = Some tk"
    and "(detail sel = Some ''select'' \<and> selectIoTHub tk = Inr iothub) \<or>
         (detail sel = Some ''create'' \<and> createIoTHub tk = Inr iothub)"
  shows "IoTHub_provision env this w = IoTHub_store env this iothub
           (w\<lparr>trace := trace w @ ShowQuickPick provisionIothubSelection #
              (if detail sel = Some ''select'' then [SelectIoTHub]
               else (if channel this
                     then [ChannelShow, ChannelAppendLine ''Creating new IoT Hub...'']
                     else []) @ [CreateIoTHub])\<rparr>)"
  using assms by (auto simp: IoTHub_provision_def IoTHub_switch_def eff_defs)

lemma IoTHub_store_no_key:
  assumes "iotHubConnectionString hub = Some cs" and "sharedAccessKeyMatches cs = None"
  shows "\<exists>e. fst (IoTHub_store env this (Some hub) w) = Inl (Error e)"
    and "config (snd (IoTHub_store env this (Some hub) w)) = config w"
  using assms by (simp_all add: IoTHub_store_def eff_defs)

lemma IoTHub_store_None: "IoTHub_store env this None w = (Inr False, w)"
  by (simp add: IoTHub_store_def eff_defs)

lemma IoTHub_store_falsy:
  "\<not> truthy (iotHubConnectionString hub) \<Longrightarrow>
   IoTHub_store env this (Some hub) w =
     (Inl (Error ''IoT Hub provision failed. Please check output window for detail.''), w)"
  by (simp add: IoTHub_store_def eff_defs truthy_def split: option.splits)

lemma IoTHub_store_unparsed:
  "iotHubConnectionString hub = Some cs \<Longrightarrow> cs \<noteq> [] \<Longrightarrow> sharedAccessKeyMatches cs = None \<Longrightarrow>
   IoTHub_store env this (Some hub) w =
     (Inl (Error ''Cannot parse shared access key from IoT Hub connection string. Please retry Azure Provision.''),
      w\<lparr>trace := trace w @ (if channel this then [ChannelShow, ChannelAppendJSON hub] else [])\<rparr>)"
  by (simp add: IoTHub_store_def eff_defs)

lemma IoTHub_store_no_events:
  "iotHubConnectionString hub = Some cs \<Longrightarrow> cs \<noteq> [] \<Longrightarrow> sharedAccessKeyMatches cs = Some key \<Longrightarrow>
   events hub = None \<Longrightarrow>
   IoTHub_store env this (Some hub) w =
     (Inl TypeError,
      w\<lparr>trace := trace w @ (if channel this then [ChannelShow, ChannelAppendJSON hub] else [])\<rparr>)"
  by (simp add: IoTHub_store_def eff_defs)

lemma IoTHub_store_parsed:
  assumes "iotHubConnectionString hub = Some cs" and "cs \<noteq> []"
    and "sharedAccessKeyMatches cs = Some key" and "events hub = Some ev"
  shows "IoTHub_store env this (Some hub) w =
    (case configRejects env ConfigKey_iotHubConnectionString cs of
       Some e \<Rightarrow>
         (Inl e, w\<lparr>trace := trace w
            @ (if channel this then [ChannelShow, ChannelAppendJSON hub] else [])
            @ [ConfigUpdate ConfigKey_iotHubConnectionString cs]\<rparr>)
     | None \<Rightarrow>
        (case configRejects env ConfigKey_eventHubConnectionString
                (eventHub_string (endpoint ev) key) of
           Some e \<Rightarrow>
             (Inl e, w\<lparr>config := (config w)(ConfigKey_iotHubConnectionString \<mapsto> cs),
                trace := trace w
                @ (if channel this then [ChannelShow, ChannelAppendJSON hub] else [])
                @ [ConfigUpdate ConfigKey_iotHubConnectionString cs,
                   ConfigUpdate ConfigKey_eventHubConnectionString
                     (eventHub_string (endpoint ev) key)]\<rparr>)
         | None \<Rightarrow>
            (case configRejects env ConfigKey_eventHubConnectionPath (path ev) of
               Some e \<Rightarrow>
                 (Inl e, w\<lparr>config := (config w)
                      (ConfigKey_iotHubConnectionString \<mapsto> cs,
                       ConfigKey_eventHubConnectionString \<mapsto> eventHub_string (endpoint ev) key),
                    trace := trace w
                    @ (if channel this then [ChannelShow, ChannelAppendJSON hub] else [])
                    @ [ConfigUpdate ConfigKey_iotHubConnectionString cs,
                       ConfigUpdate ConfigKey_eventHubConnectionString
                         (eventHub_string (endpoint ev) key),
                       ConfigUpdate ConfigKey_eventHubConnectionPath (path ev)]\<rparr>)
             | None \<Rightarrow>
                 (Inr True, w\<lparr>config := (config w)
                      (ConfigKey_iotHubConnectionString \<mapsto> cs,
                       ConfigKey_eventHubConnectionString \<mapsto> eventHub_string (endpoint ev) key,
                       ConfigKey_eventHubConnectionPath \<mapsto> path ev),
                    trace := trace w
                    @ (if channel this then [ChannelShow, ChannelAppendJSON hub] else [])
                    @ [ConfigUpdate ConfigKey_iotHubConnectionString cs,
                       ConfigUpdate ConfigKey_eventHubConnectionString
                         (eventHub_string (endpoint ev) key),
                       ConfigUpdate ConfigKey_eventHubConnectionPath (path ev)]
                    @ (if channel this
                       then [ChannelShow, ChannelAppendLine ''IoT Hub provision succeeded.'']
                       else [])\<rparr>))))"
  using assms
  by (simp add: IoTHub_store_def eff_defs eventHub_string_def split: option.splits)


lemma IoTHub_store_grows:
  "trace (snd (IoTHub_store env this iothub w)) =
     trace w @ run_trace (IoTHub_store env this iothub) w"
  by (auto simp: run_trace_def IoTHub_store_def eff_defs split: option.splits)

lemma IoTHub_provision_pick_rejected:
  "showQuickPick env provisionIothubSelection = Inl e \<Longrightarrow>
   IoTHub_provision env this w =
     (Inl e, w\<lparr>trace := trace w @ [ShowQuickPick provisionIothubSelection]\<rparr>)"
  by (simp add: IoTHub_provision_def eff_defs)

lemma IoTHub_provision_dismissed:
  "showQuickPick env provisionIothubSelection = Inr None \<Longrightarrow>
   IoTHub_provision env this w =
     (Inr False, w\<lparr>trace := trace w @ [ShowQuickPick provisionIothubSelection]\<rparr>)"
  by (simp add: IoTHub_provision_def eff_defs)

lemma IoTHub_provision_no_toolkit:
  "showQuickPick env provisionIothubSelection = Inr (Some sel) \<Longrightarrow> toolkit env = None \<Longrightarrow>
   IoTHub_provision env this w =
     (Inl (Error ''Azure IoT Toolkit is not installed. Please install it from Marketplace.''),
      w\<lparr>trace := trace w @ [ShowQuickPick provisionIothubSelection]\<rparr>)"
  by (simp add: IoTHub_provision_def eff_defs)

lemma IoTHub_provision_other_detail:
  "showQuickPick env provisionIothubSelection = Inr (Some sel) \<Longrightarrow> toolkit env = Some tk \<Longrightarrow>
   detail sel \<noteq> Some ''select'' \<Longrightarrow> detail sel \<noteq> Some ''create'' \<Longrightarrow>
   IoTHub_provision env this w =
     (Inr False, w\<lparr>trace := trace w @ [ShowQuickPick provisionIothubSelection]\<rparr>)"
  by (simp add: IoTHub_provision_def IoTHub_switch_def IoTHub_store_def eff_defs)

lemma IoTHub_provision_select_rejected:
  "showQuickPick env provisionIothubSelection = Inr (Some sel) \<Longrightarrow> toolkit env = Some tk \<Longrightarrow>
   detail sel = Some ''select'' \<Longrightarrow> selectIoTHub tk = Inl e \<Longrightarrow>
   IoTHub_provision env this w =
     (Inl e, w\<lparr>trace := trace w @ [ShowQuickPick provisionIothubSelection, SelectIoTHub]\<rparr>)"
  by (simp add: IoTHub_provision_def IoTHub_switch_def eff_defs)

lemma IoTHub_provision_create_rejected:
  "showQuickPick env provisionIothubSelection = Inr (Some sel) \<Longrightarrow> toolkit env = Some tk \<Longrightarrow>
   detail sel = Some ''create'' \<Longrightarrow> createIoTHub tk = Inl e \<Longrightarrow>
   IoTHub_provision env this w =
     (Inl e, w\<lparr>trace := trace w @ ShowQuickPick provisionIothubSelection #
        (if channel this then [ChannelShow, ChannelAppendLine ''Creating new IoT Hub...''] else [])
        @ [CreateIoTHub]\<rparr>)"
  by (simp add: IoTHub_provision_def IoTHub_switch_def eff_defs)

lemma IoTHub_provision_chosen_trace:
  assumes "showQuickPick env provisionIothubSelection = Inr (Some sel)"
    and "toolkit env = Some tk"
    and "(detail sel = Some ''select'' \<and> selectIoTHub tk = Inr iothub) \<or>
         (detail sel = Some ''create'' \<and> createIoTHub tk = Inr iothub)"
  shows "\<exists>w1. config w1 = config w
    \<and> IoTHub_provision env this w = IoTHub_store env this iothub w1
    \<and> run_trace (IoTHub_provision env this) w =
        ShowQuickPick provisionIothubSelection #
          (if detail sel = Some ''select'' then [SelectIoTHub]
           else (if channel this
                 then [ChannelShow, ChannelAppendLine ''Creating new IoT Hub...'']
                 else []) @ [CreateIoTHub])
          @ run_trace (IoTHub_store env this iothub) w1"
proof -
  define pre where "pre = ShowQuickPick provisionIothubSelection #
          (if detail sel = Some ''select'' then [SelectIoTHub]
           else (if channel this
                 then [ChannelShow, ChannelAppendLine ''Creating new IoT Hub...'']
                 else []) @ [CreateIoTHub])"
  define w1 where "w1 = w\<lparr>trace := trace w @ pre\<rparr>"
  have run: "IoTHub_provision env this w = IoTHub_store env this iothub w1"
    unfolding w1_def pre_def using assms by (rule IoTHub_provision_chosen)
  have "trace (snd (IoTHub_store env this iothub w1)) =
          trace w @ pre @ run_trace (IoTHub_store env this iothub) w1"
    using IoTHub_store_grows [of env this iothub w1] by (simp add: w1_def)
  then have "drop (length (trace w)) (trace (snd (IoTHub_store env this iothub w1))) =
      pre @ run_trace (IoTHub_store env this iothub) w1"
    by simp
  then have "run_trace (IoTHub_provision env this) w =
      pre @ run_trace (IoTHub_store env this iothub) w1"
    unfolding run_trace_def [of "IoTHub_provision env this" w] run .
  moreover have "config w1 = config w" by (simp add: w1_def)
  ultimately show ?thesis using run unfolding pre_def by auto
qed

text \<open>
  C1 (as amended). When the connection string is \<open>pre @ ''SharedAccessKey='' @ key @ rest\<close>,
  where \<open>key\<close> holds no semicolon, \<open>rest\<close> is empty or starts with one, and
  \<open>''SharedAccessKey=''\<close> does not occur in \<open>pre\<close> (this is the leftmost such segment), the
  shared access key that \<^verbatim>\<open>provision\<close> extracts is \<open>key\<close>. When the hub that the toolkit
  returned has a connection string in which \<open>''SharedAccessKey=''\<close> occurs nowhere,
  \<^verbatim>\<open>provision\<close> throws an \<^verbatim>\<open>Error\<close> and leaves the configuration as it was.
\<close>

theorem sharedAccessKey_leftmost_segment:
  "(cs = pre @ ''SharedAccessKey='' @ key @ rest \<and> CHR '';'' \<notin> set key \<and>
    (rest = [] \<or> hd rest = CHR '';'') \<and> (\<forall>p r. pre \<noteq> p @ ''SharedAccessKey='' @ r)
      \<longrightarrow> sharedAccessKeyMatches cs = Some key) \<and>
   (showQuickPick env provisionIothubSelection = Inr (Some sel) \<and> toolkit env = Some tk \<and>
    ((detail sel = Some ''select'' \<and> selectIoTHub tk = Inr (Some hub)) \<or>
     (detail sel = Some ''create'' \<and> createIoTHub tk = Inr (Some hub))) \<and>
    iotHubConnectionString hub = Some cs' \<and> (\<forall>p r. cs' \<noteq> p @ ''SharedAccessKey='' @ r)
      \<longrightarrow> (\<exists>e. fst (IoTHub_provision env this w) = Inl (Error e)) \<and>
          config (snd (IoTHub_provision env this w)) = config w)"
proof (intro conjI impI)
  assume h: "cs = pre @ ''SharedAccessKey='' @ key @ rest \<and> CHR '';'' \<notin> set key \<and>
    (rest = [] \<or> hd rest = CHR '';'') \<and> (\<forall>p r. pre \<noteq> p @ ''SharedAccessKey='' @ r)"
  have "match_group ''SharedAccessKey='' (CHR '';'') (pre @ ''SharedAccessKey='' @ key @ rest)
          = Some key"
    using h by (intro match_group_leftmost) simp_all
  with h show "sharedAccessKeyMatches cs = Some key" by (simp add: sharedAccessKeyMatches_def)
next
  assume h: "showQuickPick env provisionIothubSelection = Inr (Some sel) \<and> toolkit env = Some tk \<and>
    ((detail sel = Some ''select'' \<and> selectIoTHub tk = Inr (Some hub)) \<or>
     (detail sel = Some ''create'' \<and> createIoTHub tk = Inr (Some hub))) \<and>
    iotHubConnectionString hub = Some cs' \<and> (\<forall>p r. cs' \<noteq> p @ ''SharedAccessKey='' @ r)"
  define w' where "w' = w\<lparr>trace := trace w @ ShowQuickPick provisionIothubSelection #
              (if detail sel = Some ''select'' then [SelectIoTHub]
               else (if channel this
                     then [ChannelShow, ChannelAppendLine ''Creating new IoT Hub...'']
                     else []) @ [CreateIoTHub])\<rparr>"
  have w': "config w' = config w" by (simp add: w'_def)
  have run: "IoTHub_provision env this w = IoTHub_store env this (Some hub) w'"
    unfolding w'_def using h by (intro IoTHub_provision_chosen) blast+
  from h have none: "sharedAccessKeyMatches cs' = None"
    by (simp add: sharedAccessKeyMatches_None_iff)
  from h none run show "\<exists>e. fst (IoTHub_provision env this w) = Inl (Error e)"
    using IoTHub_store_no_key(1) [of hub cs' env this w'] by simp
  from h none run w' show "config (snd (IoTHub_provision env this w)) = config w"
    using IoTHub_store_no_key(2) [of hub cs' env this w'] by simp
qed

theorem sharedAccessKey_leftmost_segment_witness:
  "sharedAccessKeyMatches
     ''HostName=h.azure-devices.net;SharedAccessKeyName=iothubowner;SharedAccessKey=abc=;x=1''
     = Some ''abc=''
   \<and> (\<exists>e. fst (IoTHub_provision
         (env_ok\<lparr>toolkit := Some \<lparr>selectIoTHub = Inr (Some hub_no_key), createIoTHub = Inr None\<rparr>\<rparr>)
         \<lparr>channel = True\<rparr> world_empty) = Inl (Error e))
   \<and> config (snd (IoTHub_provision
         (env_ok\<lparr>toolkit := Some \<lparr>selectIoTHub = Inr (Some hub_no_key), createIoTHub = Inr None\<rparr>\<rparr>)
         \<lparr>channel = True\<rparr> world_empty)) = config world_empty"
proof -
  have a: "\<forall>p r. ''HostName=h.azure-devices.net;SharedAccessKeyName=iothubowner;''
             \<noteq> p @ ''SharedAccessKey='' @ r"
    using search_None_iff [of "''SharedAccessKey=''"
        "''HostName=h.azure-devices.net;SharedAccessKeyName=iothubowner;''"]
    by simp
  have b: "\<forall>p r. ''HostName=h'' \<noteq> p @ ''SharedAccessKey='' @ r"
    using search_None_iff [of "''SharedAccessKey=''" "''HostName=h''"] by simp
  show ?thesis
    using a b sharedAccessKey_leftmost_segment [of
      "''HostName=h.azure-devices.net;SharedAccessKeyName=iothubowner;SharedAccessKey=abc=;x=1''"
      "''HostName=h.azure-devices.net;SharedAccessKeyName=iothubowner;''" "''abc=''" "'';x=1''"
      "env_ok\<lparr>toolkit := Some \<lparr>selectIoTHub = Inr (Some hub_no_key), createIoTHub = Inr None\<rparr>\<rparr>"
      "\<lparr>label = ''Select an existing IoT Hub'',
        description = Some ''Select an existing IoT Hub'', detail = Some ''select''\<rparr>"
      "\<lparr>selectIoTHub = Inr (Some hub_no_key), createIoTHub = Inr None\<rparr>"
      hub_no_key "''HostName=h''" "\<lparr>channel = True\<rparr>" world_empty]
    by (simp add: env_ok_def provisionIothubSelection_def pick_first_def hub_no_key_def)
qed

text \<open>
  Without the restriction to the leftmost segment the statement fails: the string below
  holds the segment \<open>SharedAccessKey=b\<close>, with \<open>b\<close> free of semicolons and running to the
  end, and the key extracted is \<open>a\<close>.
\<close>

theorem sharedAccessKey_second_segment_counterexample:
  "''SharedAccessKey=a;SharedAccessKey=b''
     = ''SharedAccessKey=a;'' @ ''SharedAccessKey='' @ ''b'' @ []
   \<and> CHR '';'' \<notin> set ''b''
   \<and> sharedAccessKeyMatches ''SharedAccessKey=a;SharedAccessKey=b'' = Some ''a''
   \<and> sharedAccessKeyMatches ''SharedAccessKey=a;SharedAccessKey=b'' \<noteq> Some ''b''"
  by (simp add: sharedAccessKeyMatches_def match_group_def)

subsection \<open>IoTHub.provision: the steps of a run\<close>

lemma IoTHub_store_steps_none:
  assumes "\<not> (\<exists>hub cs key ev. iothub = Some hub \<and> iotHubConnectionString hub = Some cs
      \<and> cs \<noteq> [] \<and> sharedAccessKeyMatches cs = Some key \<and> events hub = Some ev)"
  shows "filter (\<lambda>e. \<not> is_output e) (run_trace (IoTHub_store env this iothub) w) = []"
proof (cases iothub)
  case None
  then show ?thesis by (simp add: IoTHub_store_None run_trace_def)
next
  case (Some hub)
  show ?thesis
  proof (cases "truthy (iotHubConnectionString hub)")
    case False
    then show ?thesis using Some by (simp add: IoTHub_store_falsy run_trace_def)
  next
    case True
    then obtain cs where cs: "iotHubConnectionString hub = Some cs" "cs \<noteq> []"
      by (auto simp: truthy_def split: option.splits)
    show ?thesis
    proof (cases "sharedAccessKeyMatches cs")
      case None
      then show ?thesis
        using Some cs by (simp add: IoTHub_store_unparsed run_trace_def)
    next
      case key: (Some key)
      have "events hub = None"
      proof (cases "events hub")
        case None
        then show ?thesis .
      next
        case (Some ev)
        with assms \<open>iothub = Some hub\<close> cs key show ?thesis by blast
      qed
      then show ?thesis
        using Some cs key by (simp add: IoTHub_store_no_events run_trace_def)
    qed
  qed
qed

lemma IoTHub_store_steps_parsed:
  assumes "iotHubConnectionString hub = Some cs" and "cs \<noteq> []"
    and "sharedAccessKeyMatches cs = Some key" and "events hub = Some ev"
  shows "filter (\<lambda>e. \<not> is_output e) (run_trace (IoTHub_store env this (Some hub)) w) =
     ConfigUpdate ConfigKey_iotHubConnectionString cs #
       (if configRejects env ConfigKey_iotHubConnectionString cs = None
        then ConfigUpdate ConfigKey_eventHubConnectionString (eventHub_string (endpoint ev) key) #
          (if configRejects env ConfigKey_eventHubConnectionString
                (eventHub_string (endpoint ev) key) = None
           then [ConfigUpdate ConfigKey_eventHubConnectionPath (path ev)]
           else [])
        else [])"
  by (simp add: run_trace_def IoTHub_store_parsed [OF assms] split: option.splits)

lemma IoTHub_steps_no_call:
  assumes "\<not> (\<exists>sel tk. showQuickPick env provisionIothubSelection = Inr (Some sel)
      \<and> toolkit env = Some tk
      \<and> (detail sel = Some ''select'' \<or> detail sel = Some ''create''))"
  shows "IoTHub_steps env this w = [ShowQuickPick provisionIothubSelection]"
proof (cases "showQuickPick env provisionIothubSelection")
  case (Inl e)
  then show ?thesis
    by (simp add: IoTHub_steps_def IoTHub_provision_pick_rejected run_trace_def)
next
  case (Inr selection)
  show ?thesis
  proof (cases selection)
    case None
    with Inr show ?thesis
      by (simp add: IoTHub_steps_def IoTHub_provision_dismissed run_trace_def)
  next
    case (Some sel)
    note pick = Inr [unfolded Some]
    show ?thesis
    proof (cases "toolkit env")
      case None
      with pick show ?thesis
        by (simp add: IoTHub_steps_def IoTHub_provision_no_toolkit run_trace_def)
    next
      case tk: (Some tk)
      from assms pick tk have "detail sel \<noteq> Some ''select''" "detail sel \<noteq> Some ''create''"
        by blast+
      with pick tk show ?thesis
        by (simp add: IoTHub_steps_def IoTHub_provision_other_detail run_trace_def)
    qed
  qed
qed

lemma IoTHub_steps_called:
  assumes pick: "showQuickPick env provisionIothubSelection = Inr (Some sel)"
    and tk: "toolkit env = Some tk"
    and c: "(detail sel = Some ''select'' \<and> c = SelectIoTHub \<and> selectIoTHub tk = outcome) \<or>
            (detail sel = Some ''create'' \<and> c = CreateIoTHub \<and> createIoTHub tk = outcome)"
  shows "\<exists>w1. IoTHub_steps env this w =
     ShowQuickPick provisionIothubSelection # c #
       (case outcome of
          Inl e \<Rightarrow> []
        | Inr iothub \<Rightarrow>
            filter (\<lambda>e. \<not> is_output e) (run_trace (IoTHub_store env this iothub) w1))"
proof (cases outcome)
  case (Inl e)
  from c show ?thesis
  proof
    assume "detail sel = Some ''select'' \<and> c = SelectIoTHub \<and> selectIoTHub tk = outcome"
    with pick tk Inl show ?thesis
      by (simp add: IoTHub_steps_def IoTHub_provision_select_rejected run_trace_def)
  next
    assume "detail sel = Some ''create'' \<and> c = CreateIoTHub \<and> createIoTHub tk = outcome"
    with pick tk Inl show ?thesis
      by (simp add: IoTHub_steps_def IoTHub_provision_create_rejected run_trace_def)
  qed
next
  case (Inr iothub)
  from c Inr have chosen: "(detail sel = Some ''select'' \<and> selectIoTHub tk = Inr iothub) \<or>
         (detail sel = Some ''create'' \<and> createIoTHub tk = Inr iothub)"
    by blast
  obtain w1 where run: "run_trace (IoTHub_provision env this) w =
        ShowQuickPick provisionIothubSelection #
          (if detail sel = Some ''select'' then [SelectIoTHub]
           else (if channel this
                 then [ChannelShow, ChannelAppendLine ''Creating new IoT Hub...'']
                 else []) @ [CreateIoTHub])
          @ run_trace (IoTHub_store env this iothub) w1"
    using IoTHub_provision_chosen_trace [OF pick tk chosen, of w this] by blast
  have "IoTHub_steps env this w = ShowQuickPick provisionIothubSelection # c #
      filter (\<lambda>e. \<not> is_output e) (run_trace (IoTHub_store env this iothub) w1)"
    unfolding IoTHub_steps_def run using c by auto
  with Inr show ?thesis by auto
qed


text \<open>
  C7 (as amended). The steps of \<^verbatim>\<open>IoTHub.provision\<close> come in one fixed order, and a run makes
  each step exactly when it reaches it. Every run starts with the quick pick of the two
  items. Unless an item \<open>select\<close> or \<open>create\<close> is picked and the toolkit is installed, the
  quick pick is the only step. Otherwise the second step is the toolkit call the item
  names, \<^verbatim>\<open>selectIoTHub\<close> or \<^verbatim>\<open>createIoTHub\<close>. Unless that call returns a hub with a non-empty
  connection string that the regular expression matches, and with an events endpoint,
  there is no further step. Otherwise the config writes follow, each one made when the one
  before was accepted: the hub's connection string, then the string derived from the
  events endpoint and the matched key, then the events path.
\<close>

theorem provision_steps_in_order:
  "(\<exists>rest. IoTHub_steps env this w = ShowQuickPick provisionIothubSelection # rest)
   \<and> (\<not> (\<exists>sel tk. showQuickPick env provisionIothubSelection = Inr (Some sel)
            \<and> toolkit env = Some tk
            \<and> (detail sel = Some ''select'' \<or> detail sel = Some ''create''))
        \<longrightarrow> IoTHub_steps env this w = [ShowQuickPick provisionIothubSelection])
   \<and> (showQuickPick env provisionIothubSelection = Inr (Some sel) \<and> toolkit env = Some tk
       \<and> ((detail sel = Some ''select'' \<and> c = SelectIoTHub \<and> selectIoTHub tk = outcome) \<or>
           (detail sel = Some ''create'' \<and> c = CreateIoTHub \<and> createIoTHub tk = outcome))
        \<longrightarrow>
          (\<not> (\<exists>hub cs key ev. outcome = Inr (Some hub) \<and> iotHubConnectionString hub = Some cs
                 \<and> cs \<noteq> [] \<and> sharedAccessKeyMatches cs = Some key \<and> events hub = Some ev)
             \<longrightarrow> IoTHub_steps env this w = [ShowQuickPick provisionIothubSelection, c])
        \<and> (\<forall>hub cs key ev. outcome = Inr (Some hub) \<and> iotHubConnectionString hub = Some cs
                 \<and> cs \<noteq> [] \<and> sharedAccessKeyMatches cs = Some key \<and> events hub = Some ev
             \<longrightarrow> IoTHub_steps env this w =
                   ShowQuickPick provisionIothubSelection # c #
                   ConfigUpdate ConfigKey_iotHubConnectionString cs #
                   (if configRejects env ConfigKey_iotHubConnectionString cs = None
                    then ConfigUpdate ConfigKey_eventHubConnectionString
                           (''Endpoint='' @ endpoint ev
                              @ '';SharedAccessKeyName=iothubowner;SharedAccessKey='' @ key) #
                      (if configRejects env ConfigKey_eventHubConnectionString
                            (''Endpoint='' @ endpoint ev
                               @ '';SharedAccessKeyName=iothubowner;SharedAccessKey='' @ key)
                          = None
                       then [ConfigUpdate ConfigKey_eventHubConnectionPath (path ev)]
                       else [])
                    else [])))"
proof (intro conjI impI allI)
  show "\<exists>rest. IoTHub_steps env this w = ShowQuickPick provisionIothubSelection # rest"
  proof (cases "\<exists>sel tk. showQuickPick env provisionIothubSelection = Inr (Some sel)
            \<and> toolkit env = Some tk
            \<and> (detail sel = Some ''select'' \<or> detail sel = Some ''create'')")
    case False
    then show ?thesis using IoTHub_steps_no_call [of env this w] by simp
  next
    case True
    then obtain sel' tk' where h: "showQuickPick env provisionIothubSelection = Inr (Some sel')"
      "toolkit env = Some tk'"
      "detail sel' = Some ''select'' \<or> detail sel' = Some ''create''"
      by blast
    from h(3) show ?thesis
    proof
      assume "detail sel' = Some ''select''"
      then show ?thesis
        using IoTHub_steps_called [OF h(1,2), of SelectIoTHub "selectIoTHub tk'" this w]
        by auto
    next
      assume "detail sel' = Some ''create''"
      then show ?thesis
        using IoTHub_steps_called [OF h(1,2), of CreateIoTHub "createIoTHub tk'" this w]
        by auto
    qed
  qed
next
  assume "\<not> (\<exists>sel tk. showQuickPick env provisionIothubSelection = Inr (Some sel)
            \<and> toolkit env = Some tk
            \<and> (detail sel = Some ''select'' \<or> detail sel = Some ''create''))"
  then show "IoTHub_steps env this w = [ShowQuickPick provisionIothubSelection]"
    by (rule IoTHub_steps_no_call)
next
  assume h: "showQuickPick env provisionIothubSelection = Inr (Some sel) \<and> toolkit env = Some tk
       \<and> ((detail sel = Some ''select'' \<and> c = SelectIoTHub \<and> selectIoTHub tk = outcome) \<or>
           (detail sel = Some ''create'' \<and> c = CreateIoTHub \<and> createIoTHub tk = outcome))"
    and no: "\<not> (\<exists>hub cs key ev. outcome = Inr (Some hub) \<and> iotHubConnectionString hub = Some cs
                 \<and> cs \<noteq> [] \<and> sharedAccessKeyMatches cs = Some key \<and> events hub = Some ev)"
  obtain w1 where st: "IoTHub_steps env this w =
     ShowQuickPick provisionIothubSelection # c #
       (case outcome of
          Inl e \<Rightarrow> []
        | Inr iothub \<Rightarrow>
            filter (\<lambda>e. \<not> is_output e) (run_trace (IoTHub_store env this iothub) w1))"
    using IoTHub_steps_called [of env sel tk c outcome this w] h by blast
  show "IoTHub_steps env this w = [ShowQuickPick provisionIothubSelection, c]"
  proof (cases outcome)
    case (Inl e)
    with st show ?thesis by simp
  next
    case (Inr iothub)
    with no have "\<not> (\<exists>hub cs key ev. iothub = Some hub \<and> iotHubConnectionString hub = Some cs
      \<and> cs \<noteq> [] \<and> sharedAccessKeyMatches cs = Some key \<and> events hub = Some ev)"
      by simp
    then have "filter (\<lambda>e. \<not> is_output e) (run_trace (IoTHub_store env this iothub) w1) = []"
      by (rule IoTHub_store_steps_none)
    with st Inr show ?thesis by simp
  qed
next
  fix hub cs key ev
  assume h: "showQuickPick env provisionIothubSelection = Inr (Some sel) \<and> toolkit env = Some tk
       \<and> ((detail sel = Some ''select'' \<and> c = SelectIoTHub \<and> selectIoTHub tk = outcome) \<or>
           (detail sel = Some ''create'' \<and> c = CreateIoTHub \<and> createIoTHub tk = outcome))"
    and p: "outcome = Inr (Some hub) \<and> iotHubConnectionString hub = Some cs
                 \<and> cs \<noteq> [] \<and> sharedAccessKeyMatches cs = Some key \<and> events hub = Some ev"
  obtain w1 where st: "IoTHub_steps env this w =
     ShowQuickPick provisionIothubSelection # c #
       (case outcome of
          Inl e \<Rightarrow> []
        | Inr iothub \<Rightarrow>
            filter (\<lambda>e. \<not> is_output e) (run_trace (IoTHub_store env this iothub) w1))"
    using IoTHub_steps_called [of env sel tk c outcome this w] h by blast
  from p have parsed: "iotHubConnectionString hub = Some cs" "cs \<noteq> []"
    "sharedAccessKeyMatches cs = Some key" "events hub = Some ev" by simp_all
  show "IoTHub_steps env this w =
                   ShowQuickPick provisionIothubSelection # c #
                   ConfigUpdate ConfigKey_iotHubConnectionString cs #
                   (if configRejects env ConfigKey_iotHubConnectionString cs = None
                    then ConfigUpdate ConfigKey_eventHubConnectionString
                           (''Endpoint='' @ endpoint ev
                              @ '';SharedAccessKeyName=iothubowner;SharedAccessKey='' @ key) #
                      (if configRejects env ConfigKey_eventHubConnectionString
                            (''Endpoint='' @ endpoint ev
                               @ '';SharedAccessKeyName=iothubowner;SharedAccessKey='' @ key)
                          = None
                       then [ConfigUpdate ConfigKey_eventHubConnectionPath (path ev)]
                       else [])
                    else [])"
    unfolding st using p
    by (simp add: IoTHub_store_steps_parsed [OF parsed] eventHub_string_def)
qed


theorem provision_steps_in_order_witness:
  "IoTHub_steps env_ok \<lparr>channel = True\<rparr> world_empty =
     [ShowQuickPick provisionIothubSelection, SelectIoTHub,
      ConfigUpdate ConfigKey_iotHubConnectionString
        ''HostName=h.azure-devices.net;SharedAccessKeyName=iothubowner;SharedAccessKey=abc='',
      ConfigUpdate ConfigKey_eventHubConnectionString
        ''Endpoint=sb://e.servicebus.windows.net/;SharedAccessKeyName=iothubowner;SharedAccessKey=abc='',
      ConfigUpdate ConfigKey_eventHubConnectionPath ''hub1'']
   \<and> IoTHub_steps (env_ok\<lparr>toolkit := None\<rparr>) \<lparr>channel = True\<rparr> world_empty =
     [ShowQuickPick provisionIothubSelection]
   \<and> IoTHub_steps
       (env_ok\<lparr>toolkit := Some \<lparr>selectIoTHub = Inr None, createIoTHub = Inr None\<rparr>\<rparr>)
       \<lparr>channel = True\<rparr> world_empty =
     [ShowQuickPick provisionIothubSelection, SelectIoTHub]"
proof -
  let ?item = "\<lparr>label = ''Select an existing IoT Hub'',
                 description = Some ''Select an existing IoT Hub'', detail = Some ''select''\<rparr>"
  let ?tk = "\<lparr>selectIoTHub = Inr (Some hub_ok), createIoTHub = Inr (Some hub_no_key)\<rparr>"
  let ?tk3 = "\<lparr>selectIoTHub = Inr None, createIoTHub = Inr None\<rparr>"
  let ?cs = "''HostName=h.azure-devices.net;SharedAccessKeyName=iothubowner;SharedAccessKey=abc=''"
  let ?ev = "\<lparr>endpoint = ''sb://e.servicebus.windows.net/'', path = ''hub1''\<rparr>"
  have pick: "showQuickPick env_ok provisionIothubSelection = Inr (Some ?item)"
    by (simp add: env_ok_def pick_first_def provisionIothubSelection_def)
  have tk: "toolkit env_ok = Some ?tk" by (simp add: env_ok_def)
  have cs: "iotHubConnectionString hub_ok = Some ?cs" by (simp add: hub_ok_def)
  have key: "sharedAccessKeyMatches ?cs = Some ''abc=''"
    by (simp add: sharedAccessKeyMatches_def match_group_def)
  have ev: "events hub_ok = Some ?ev" by (simp add: hub_ok_def)
  have rej: "configRejects env_ok k v = None" for k v by (simp add: env_ok_def)
  have 1: "IoTHub_steps env_ok \<lparr>channel = True\<rparr> world_empty =
     [ShowQuickPick provisionIothubSelection, SelectIoTHub,
      ConfigUpdate ConfigKey_iotHubConnectionString ?cs,
      ConfigUpdate ConfigKey_eventHubConnectionString
        ''Endpoint=sb://e.servicebus.windows.net/;SharedAccessKeyName=iothubowner;SharedAccessKey=abc='',
      ConfigUpdate ConfigKey_eventHubConnectionPath ''hub1'']"
    using provision_steps_in_order [where env = env_ok and this = "\<lparr>channel = True\<rparr>"
        and w = world_empty and sel = ?item and tk = ?tk and c = SelectIoTHub
        and outcome = "Inr (Some hub_ok)", THEN conjunct2, THEN conjunct2, THEN mp,
        THEN conjunct2, THEN spec, THEN spec, THEN spec, THEN spec, THEN mp,
        of hub_ok ?cs "''abc=''" ?ev]
      pick tk cs key ev rej
    by simp
  have no2: "\<not> (\<exists>sel tk. showQuickPick (env_ok\<lparr>toolkit := None\<rparr>) provisionIothubSelection
              = Inr (Some sel)
            \<and> toolkit (env_ok\<lparr>toolkit := None\<rparr>) = Some tk
            \<and> (detail sel = Some ''select'' \<or> detail sel = Some ''create''))"
    by simp
  have 2: "IoTHub_steps (env_ok\<lparr>toolkit := None\<rparr>) \<lparr>channel = True\<rparr> world_empty =
     [ShowQuickPick provisionIothubSelection]"
    using provision_steps_in_order [where env = "env_ok\<lparr>toolkit := None\<rparr>"
        and this = "\<lparr>channel = True\<rparr>" and w = world_empty,
        THEN conjunct2, THEN conjunct1, THEN mp, OF no2] .
  have pick3: "showQuickPick (env_ok\<lparr>toolkit := Some ?tk3\<rparr>) provisionIothubSelection
      = Inr (Some ?item)"
    using pick by simp
  have no3: "\<not> (\<exists>hub cs key ev. (Inr None :: error + IoTHubInfo option) = Inr (Some hub)
                 \<and> iotHubConnectionString hub = Some cs
                 \<and> cs \<noteq> [] \<and> sharedAccessKeyMatches cs = Some key \<and> events hub = Some ev)"
    by simp
  have 3: "IoTHub_steps (env_ok\<lparr>toolkit := Some ?tk3\<rparr>) \<lparr>channel = True\<rparr> world_empty =
     [ShowQuickPick provisionIothubSelection, SelectIoTHub]"
    using provision_steps_in_order [where env = "env_ok\<lparr>toolkit := Some ?tk3\<rparr>"
        and this = "\<lparr>channel = True\<rparr>" and w = world_empty and sel = ?item and tk = ?tk3
        and c = SelectIoTHub and outcome = "Inr None",
        THEN conjunct2, THEN conjunct2, THEN mp, THEN conjunct1, THEN mp, OF _ no3]
      pick3
    by simp
  from 1 2 3 show ?thesis by simp
qed

text \<open>
  As first stated, for every run, the statement fails: when the quick pick is dismissed the
  run ends after its first step, with no toolkit call and no config write.
\<close>

theorem provision_dismissed_steps_counterexample:
  "IoTHub_steps (env_ok\<lparr>showQuickPick := \<lambda>items. Inr None\<rparr>) \<lparr>channel = True\<rparr> world_empty =
     [ShowQuickPick provisionIothubSelection]
   \<and> fst (IoTHub_provision (env_ok\<lparr>showQuickPick := \<lambda>items. Inr None\<rparr>)
            \<lparr>channel = True\<rparr> world_empty) = Inr False
   \<and> config (snd (IoTHub_provision (env_ok\<lparr>showQuickPick := \<lambda>items. Inr None\<rparr>)
            \<lparr>channel = True\<rparr> world_empty)) = config world_empty"
  by (simp add: IoTHub_steps_def run_trace_def IoTHub_provision_dismissed)

subsection \<open>IoTHub.provision: successful runs\<close>

lemma IoTHub_store_True_inv:
  assumes "fst (IoTHub_store env this iothub w) = Inr True"
  shows "\<exists>hub cs key ev. iothub = Some hub \<and> iotHubConnectionString hub = Some cs \<and> cs \<noteq> []
    \<and> sharedAccessKeyMatches cs = Some key \<and> events hub = Some ev
    \<and> configRejects env ConfigKey_iotHubConnectionString cs = None
    \<and> configRejects env ConfigKey_eventHubConnectionString
           (eventHub_string (endpoint ev) key) = None
    \<and> configRejects env ConfigKey_eventHubConnectionPath (path ev) = None"
  using assms
  by (auto simp: IoTHub_store_def eff_defs eventHub_string_def
      split: option.splits if_splits)

lemma IoTHub_provision_True_inv:
  assumes "fst (IoTHub_provision env this w) = Inr True"
  shows "\<exists>sel tk hub. showQuickPick env provisionIothubSelection = Inr (Some sel)
    \<and> toolkit env = Some tk
    \<and> ((detail sel = Some ''select'' \<and> selectIoTHub tk = Inr (Some hub)) \<or>
        (detail sel = Some ''create'' \<and> createIoTHub tk = Inr (Some hub)))"
proof (cases "showQuickPick env provisionIothubSelection")
  case (Inl e)
  with assms show ?thesis by (simp add: IoTHub_provision_pick_rejected)
next
  case (Inr selection)
  show ?thesis
  proof (cases selection)
    case None
    with Inr assms show ?thesis by (simp add: IoTHub_provision_dismissed)
  next
    case (Some sel)
    note pick = Inr [unfolded Some]
    show ?thesis
    proof (cases "toolkit env")
      case None
      with pick assms show ?thesis by (simp add: IoTHub_provision_no_toolkit)
    next
      case tk: (Some tk)
      consider (sel) "detail sel = Some ''select''" | (cre) "detail sel = Some ''create''"
        | (other) "detail sel \<noteq> Some ''select''" "detail sel \<noteq> Some ''create''"
        by blast
      then show ?thesis
      proof cases
        case other
        with pick tk assms show ?thesis by (simp add: IoTHub_provision_other_detail)
      next
        case sel
        show ?thesis
        proof (cases "selectIoTHub tk")
          case (Inl e)
          with pick tk sel assms show ?thesis by (simp add: IoTHub_provision_select_rejected)
        next
          case (Inr iothub)
          with pick tk sel have "IoTHub_provision env this w = IoTHub_store env this iothub
             (w\<lparr>trace := trace w @ [ShowQuickPick provisionIothubSelection, SelectIoTHub]\<rparr>)"
            using IoTHub_provision_chosen [of env sel tk iothub this w] by simp
          with assms obtain hub where "iothub = Some hub"
            using IoTHub_store_True_inv by (metis)
          with pick tk sel Inr show ?thesis by simp
        qed
      next
        case cre
        show ?thesis
        proof (cases "createIoTHub tk")
          case (Inl e)
          with pick tk cre assms show ?thesis by (simp add: IoTHub_provision_create_rejected)
        next
          case (Inr iothub)
          with pick tk cre have "\<exists>w1. IoTHub_provision env this w = IoTHub_store env this iothub w1"
            using IoTHub_provision_chosen [of env sel tk iothub this w] by blast
          with assms obtain hub where "iothub = Some hub"
            using IoTHub_store_True_inv by (metis)
          with pick tk cre Inr show ?thesis by simp
        qed
      qed
    qed
  qed
qed

lemma IoTHub_provision_parsed:
  assumes pick: "showQuickPick env provisionIothubSelection = Inr (Some sel)"
    and tk: "toolkit env = Some tk"
    and hub: "(detail sel = Some ''select'' \<and> selectIoTHub tk = Inr (Some hub)) \<or>
         (detail sel = Some ''create'' \<and> createIoTHub tk = Inr (Some hub))"
    and cs: "iotHubConnectionString hub = Some cs" "cs \<noteq> []"
    and key: "sharedAccessKeyMatches cs = Some key"
    and ev: "events hub = Some ev"
  shows "\<exists>w1 pre. config w1 = config w \<and> filter is_ConfigUpdate pre = []
    \<and> fst (IoTHub_provision env this w) = fst (IoTHub_store env this (Some hub) w1)
    \<and> config (snd (IoTHub_provision env this w)) = config (snd (IoTHub_store env this (Some hub) w1))
    \<and> run_trace (IoTHub_provision env this) w = pre @
        (case configRejects env ConfigKey_iotHubConnectionString cs of
           Some e \<Rightarrow> [ConfigUpdate ConfigKey_iotHubConnectionString cs]
         | None \<Rightarrow>
            (case configRejects env ConfigKey_eventHubConnectionString
                    (eventHub_string (endpoint ev) key) of
               Some e \<Rightarrow>
                 [ConfigUpdate ConfigKey_iotHubConnectionString cs,
                  ConfigUpdate ConfigKey_eventHubConnectionString
                    (eventHub_string (endpoint ev) key)]
             | None \<Rightarrow>
                 [ConfigUpdate ConfigKey_iotHubConnectionString cs,
                  ConfigUpdate ConfigKey_eventHubConnectionString
                    (eventHub_string (endpoint ev) key),
                  ConfigUpdate ConfigKey_eventHubConnectionPath (path ev)]
                 @ (case configRejects env ConfigKey_eventHubConnectionPath (path ev) of
                      Some e \<Rightarrow> []
                    | None \<Rightarrow>
                        if channel this
                        then [ChannelShow, ChannelAppendLine ''IoT Hub provision succeeded.'']
                        else [])))"
proof -
  obtain w1 where w1: "config w1 = config w"
    "IoTHub_provision env this w = IoTHub_store env this (Some hub) w1"
    "run_trace (IoTHub_provision env this) w =
        ShowQuickPick provisionIothubSelection #
          (if detail sel = Some ''select'' then [SelectIoTHub]
           else (if channel this
                 then [ChannelShow, ChannelAppendLine ''Creating new IoT Hub...'']
                 else []) @ [CreateIoTHub])
          @ run_trace (IoTHub_store env this (Some hub)) w1"
    using IoTHub_provision_chosen_trace [OF pick tk hub, of w this] by blast
  define pre where "pre = ShowQuickPick provisionIothubSelection #
          (if detail sel = Some ''select'' then [SelectIoTHub]
           else (if channel this
                 then [ChannelShow, ChannelAppendLine ''Creating new IoT Hub...'']
                 else []) @ [CreateIoTHub])
          @ (if channel this then [ChannelShow, ChannelAppendJSON hub] else [])"
  have "filter is_ConfigUpdate pre = []" by (simp add: pre_def)
  moreover have "run_trace (IoTHub_provision env this) w = pre @
        (case configRejects env ConfigKey_iotHubConnectionString cs of
           Some e \<Rightarrow> [ConfigUpdate ConfigKey_iotHubConnectionString cs]
         | None \<Rightarrow>
            (case configRejects env ConfigKey_eventHubConnectionString
                    (eventHub_string (endpoint ev) key) of
               Some e \<Rightarrow>
                 [ConfigUpdate ConfigKey_iotHubConnectionString cs,
                  ConfigUpdate ConfigKey_eventHubConnectionString
                    (eventHub_string (endpoint ev) key)]
             | None \<Rightarrow>
                 [ConfigUpdate ConfigKey_iotHubConnectionString cs,
                  ConfigUpdate ConfigKey_eventHubConnectionString
                    (eventHub_string (endpoint ev) key),
                  ConfigUpdate ConfigKey_eventHubConnectionPath (path ev)]
                 @ (case configRejects env ConfigKey_eventHubConnectionPath (path ev) of
                      Some e \<Rightarrow> []
                    | None \<Rightarrow>
                        if channel this
                        then [ChannelShow, ChannelAppendLine ''IoT Hub provision succeeded.'']
                        else [])))"
    unfolding w1(3) pre_def
    by (simp add: run_trace_def IoTHub_store_parsed [OF cs key ev] split: option.splits)
  ultimately show ?thesis using w1 by auto
qed

text \<open>
  C2. Let the toolkit return a hub object with a non-empty connection string from which
  the shared access key \<open>key\<close> is extracted, and with an events endpoint \<open>ev\<close>. Then the only
  value \<^verbatim>\<open>provision\<close> ever writes for \<^verbatim>\<open>eventHubConnectionString\<close> is
  \<open>''Endpoint='' @ endpoint ev @ '';SharedAccessKeyName=iothubowner;SharedAccessKey='' @ key\<close>,
  the only value it writes for \<^verbatim>\<open>eventHubConnectionPath\<close> is \<open>path ev\<close>, and when the
  config accepts the three writes these are the values stored.
\<close>

theorem eventHub_values_derived:
  assumes pick: "showQuickPick env provisionIothubSelection = Inr (Some sel)"
    and tk: "toolkit env = Some tk"
    and hub: "(detail sel = Some ''select'' \<and> selectIoTHub tk = Inr (Some hub)) \<or>
         (detail sel = Some ''create'' \<and> createIoTHub tk = Inr (Some hub))"
    and cs: "iotHubConnectionString hub = Some cs" "cs \<noteq> []"
    and key: "sharedAccessKeyMatches cs = Some key"
    and ev: "events hub = Some ev"
  shows "(\<forall>v. ConfigUpdate ConfigKey_eventHubConnectionString v
              \<in> set (run_trace (IoTHub_provision env this) w) \<longrightarrow>
            v = ''Endpoint='' @ endpoint ev
                  @ '';SharedAccessKeyName=iothubowner;SharedAccessKey='' @ key)
    \<and> (\<forall>v. ConfigUpdate ConfigKey_eventHubConnectionPath v
              \<in> set (run_trace (IoTHub_provision env this) w) \<longrightarrow> v = path ev)
    \<and> (configRejects env ConfigKey_iotHubConnectionString cs = None
        \<and> configRejects env ConfigKey_eventHubConnectionString
             (''Endpoint='' @ endpoint ev
                @ '';SharedAccessKeyName=iothubowner;SharedAccessKey='' @ key) = None
        \<and> configRejects env ConfigKey_eventHubConnectionPath (path ev) = None \<longrightarrow>
          config (snd (IoTHub_provision env this w)) ConfigKey_eventHubConnectionString
            = Some (''Endpoint='' @ endpoint ev
                      @ '';SharedAccessKeyName=iothubowner;SharedAccessKey='' @ key)
        \<and> config (snd (IoTHub_provision env this w)) ConfigKey_eventHubConnectionPath
            = Some (path ev))"
proof -
  obtain w1 pre where run: "config w1 = config w" "filter is_ConfigUpdate pre = []"
    "config (snd (IoTHub_provision env this w)) =
       config (snd (IoTHub_store env this (Some hub) w1))"
    "run_trace (IoTHub_provision env this) w = pre @
        (case configRejects env ConfigKey_iotHubConnectionString cs of
           Some e \<Rightarrow> [ConfigUpdate ConfigKey_iotHubConnectionString cs]
         | None \<Rightarrow>
            (case configRejects env ConfigKey_eventHubConnectionString
                    (eventHub_string (endpoint ev) key) of
               Some e \<Rightarrow>
                 [ConfigUpdate ConfigKey_iotHubConnectionString cs,
                  ConfigUpdate ConfigKey_eventHubConnectionString
                    (eventHub_string (endpoint ev) key)]
             | None \<Rightarrow>
                 [ConfigUpdate ConfigKey_iotHubConnectionString cs,
                  ConfigUpdate ConfigKey_eventHubConnectionString
                    (eventHub_string (endpoint ev) key),
                  ConfigUpdate ConfigKey_eventHubConnectionPath (path ev)]
                 @ (case configRejects env ConfigKey_eventHubConnectionPath (path ev) of
                      Some e \<Rightarrow> []
                    | None \<Rightarrow>
                        if channel this
                        then [ChannelShow, ChannelAppendLine ''IoT Hub provision succeeded.'']
                        else [])))"
    using IoTHub_provision_parsed [OF pick tk hub cs key ev, of w this] by blast
  have pre: "ConfigUpdate k v \<notin> set pre" for k v
    using run(2) by (auto simp: filter_empty_conv)
  have str: "eventHub_string (endpoint ev) key =
      ''Endpoint='' @ endpoint ev @ '';SharedAccessKeyName=iothubowner;SharedAccessKey='' @ key"
    by (simp add: eventHub_string_def)
  have a: "\<forall>v. ConfigUpdate ConfigKey_eventHubConnectionString v
              \<in> set (run_trace (IoTHub_provision env this) w) \<longrightarrow>
            v = ''Endpoint='' @ endpoint ev
                  @ '';SharedAccessKeyName=iothubowner;SharedAccessKey='' @ key"
    unfolding run(4) str using pre by (auto split: option.splits if_splits)
  have b: "\<forall>v. ConfigUpdate ConfigKey_eventHubConnectionPath v
              \<in> set (run_trace (IoTHub_provision env this) w) \<longrightarrow> v = path ev"
    unfolding run(4) using pre by (auto split: option.splits if_splits)
  have c: "configRejects env ConfigKey_iotHubConnectionString cs = None
        \<and> configRejects env ConfigKey_eventHubConnectionString
             (''Endpoint='' @ endpoint ev
                @ '';SharedAccessKeyName=iothubowner;SharedAccessKey='' @ key) = None
        \<and> configRejects env ConfigKey_eventHubConnectionPath (path ev) = None \<longrightarrow>
          config (snd (IoTHub_provision env this w)) ConfigKey_eventHubConnectionString
            = Some (''Endpoint='' @ endpoint ev
                      @ '';SharedAccessKeyName=iothubowner;SharedAccessKey='' @ key)
        \<and> config (snd (IoTHub_provision env this w)) ConfigKey_eventHubConnectionPath
            = Some (path ev)"
    unfolding run(3) IoTHub_store_parsed [OF cs key ev] str by simp
  from a b c show ?thesis by blast
qed

theorem eventHub_values_derived_witness:
  "ConfigUpdate ConfigKey_eventHubConnectionString
      ''Endpoint=sb://e.servicebus.windows.net/;SharedAccessKeyName=iothubowner;SharedAccessKey=abc=''
     \<in> set (run_trace (IoTHub_provision env_ok \<lparr>channel = True\<rparr>) world_empty)
   \<and> config (snd (IoTHub_provision env_ok \<lparr>channel = True\<rparr> world_empty))
        ConfigKey_eventHubConnectionString
      = Some ''Endpoint=sb://e.servicebus.windows.net/;SharedAccessKeyName=iothubowner;SharedAccessKey=abc=''
   \<and> config (snd (IoTHub_provision env_ok \<lparr>channel = True\<rparr> world_empty))
        ConfigKey_eventHubConnectionPath = Some ''hub1''"
proof -
  have pick: "showQuickPick env_ok provisionIothubSelection =
      Inr (Some \<lparr>label = ''Select an existing IoT Hub'',
                 description = Some ''Select an existing IoT Hub'', detail = Some ''select''\<rparr>)"
    by (simp add: env_ok_def pick_first_def provisionIothubSelection_def)
  have tk: "toolkit env_ok =
      Some \<lparr>selectIoTHub = Inr (Some hub_ok), createIoTHub = Inr (Some hub_no_key)\<rparr>"
    by (simp add: env_ok_def)
  have hub: "(detail \<lparr>label = ''Select an existing IoT Hub'',
                 description = Some ''Select an existing IoT Hub'', detail = Some ''select''\<rparr>
               = Some ''select''
             \<and> selectIoTHub \<lparr>selectIoTHub = Inr (Some hub_ok), createIoTHub = Inr (Some hub_no_key)\<rparr>
               = Inr (Some hub_ok)) \<or>
            (detail \<lparr>label = ''Select an existing IoT Hub'',
                 description = Some ''Select an existing IoT Hub'', detail = Some ''select''\<rparr>
               = Some ''create''
             \<and> createIoTHub \<lparr>selectIoTHub = Inr (Some hub_ok), createIoTHub = Inr (Some hub_no_key)\<rparr>
               = Inr (Some hub_ok))"
    by simp
  have cs: "iotHubConnectionString hub_ok =
      Some ''HostName=h.azure-devices.net;SharedAccessKeyName=iothubowner;SharedAccessKey=abc=''"
    "''HostName=h.azure-devices.net;SharedAccessKeyName=iothubowner;SharedAccessKey=abc='' \<noteq> []"
    by (simp_all add: hub_ok_def)
  have key: "sharedAccessKeyMatches
      ''HostName=h.azure-devices.net;SharedAccessKeyName=iothubowner;SharedAccessKey=abc=''
      = Some ''abc=''"
    by (simp add: sharedAccessKeyMatches_def match_group_def)
  have ev: "events hub_ok = Some \<lparr>endpoint = ''sb://e.servicebus.windows.net/'', path = ''hub1''\<rparr>"
    by (simp add: hub_ok_def)
  have run: "run_trace (IoTHub_provision env_ok \<lparr>channel = True\<rparr>) world_empty =
     [ShowQuickPick provisionIothubSelection, SelectIoTHub, ChannelShow, ChannelAppendJSON hub_ok,
      ConfigUpdate ConfigKey_iotHubConnectionString
        ''HostName=h.azure-devices.net;SharedAccessKeyName=iothubowner;SharedAccessKey=abc='',
      ConfigUpdate ConfigKey_eventHubConnectionString
        ''Endpoint=sb://e.servicebus.windows.net/;SharedAccessKeyName=iothubowner;SharedAccessKey=abc='',
      ConfigUpdate ConfigKey_eventHubConnectionPath ''hub1'',
      ChannelShow, ChannelAppendLine ''IoT Hub provision succeeded.'']"
    by (simp add: run_trace_def IoTHub_provision_def IoTHub_switch_def IoTHub_store_def eff_defs
        env_ok_def hub_ok_def pick_first_def world_empty_def provisionIothubSelection_def
        sharedAccessKeyMatches_def match_group_def)
  have rej: "configRejects env_ok k v = None" for k v by (simp add: env_ok_def)
  show ?thesis
    using eventHub_values_derived [OF pick tk hub cs key ev, of "\<lparr>channel = True\<rparr>" world_empty]
    by (simp add: rej run)
qed

text \<open>
  C3. A run of \<^verbatim>\<open>IoTHub.provision\<close> that returns \<^verbatim>\<open>true\<close> got a hub from the toolkit call
  that the picked item names, parsed the key out of its connection string, and made
  exactly three config writes, in this order: \<^verbatim>\<open>iotHubConnectionString\<close> with the hub's
  connection string, \<^verbatim>\<open>eventHubConnectionString\<close> with the derived string and
  \<^verbatim>\<open>eventHubConnectionPath\<close> with the events path; the config afterwards is the one before
  with these three keys set, every other key as it was. Conversely, when a hub is selected
  or created, its connection string parsed, its events endpoint present and the three
  writes accepted, \<^verbatim>\<open>provision\<close> returns \<^verbatim>\<open>true\<close>.
\<close>

theorem provision_success_three_writes:
  "(fst (IoTHub_provision env this w) = Inr True \<longrightarrow>
     (\<exists>sel tk hub cs key ev.
        showQuickPick env provisionIothubSelection = Inr (Some sel) \<and> toolkit env = Some tk
      \<and> ((detail sel = Some ''select'' \<and> selectIoTHub tk = Inr (Some hub)) \<or>
          (detail sel = Some ''create'' \<and> createIoTHub tk = Inr (Some hub)))
      \<and> iotHubConnectionString hub = Some cs \<and> sharedAccessKeyMatches cs = Some key
      \<and> events hub = Some ev
      \<and> filter is_ConfigUpdate (run_trace (IoTHub_provision env this) w) =
          [ConfigUpdate ConfigKey_iotHubConnectionString cs,
           ConfigUpdate ConfigKey_eventHubConnectionString
             (''Endpoint='' @ endpoint ev
                @ '';SharedAccessKeyName=iothubowner;SharedAccessKey='' @ key),
           ConfigUpdate ConfigKey_eventHubConnectionPath (path ev)]
      \<and> config (snd (IoTHub_provision env this w)) = (config w)
          (ConfigKey_iotHubConnectionString \<mapsto> cs,
           ConfigKey_eventHubConnectionString \<mapsto>
             ''Endpoint='' @ endpoint ev
                @ '';SharedAccessKeyName=iothubowner;SharedAccessKey='' @ key,
           ConfigKey_eventHubConnectionPath \<mapsto> path ev)))
   \<and> (showQuickPick env provisionIothubSelection = Inr (Some sel') \<and> toolkit env = Some tk'
      \<and> ((detail sel' = Some ''select'' \<and> selectIoTHub tk' = Inr (Some hub')) \<or>
          (detail sel' = Some ''create'' \<and> createIoTHub tk' = Inr (Some hub')))
      \<and> iotHubConnectionString hub' = Some cs' \<and> cs' \<noteq> []
      \<and> sharedAccessKeyMatches cs' = Some key' \<and> events hub' = Some ev'
      \<and> configRejects env ConfigKey_iotHubConnectionString cs' = None
      \<and> configRejects env ConfigKey_eventHubConnectionString
             (''Endpoint='' @ endpoint ev'
                @ '';SharedAccessKeyName=iothubowner;SharedAccessKey='' @ key') = None
      \<and> configRejects env ConfigKey_eventHubConnectionPath (path ev') = None
      \<longrightarrow> fst (IoTHub_provision env this w) = Inr True)"
proof (intro conjI impI)
  assume ok: "fst (IoTHub_provision env this w) = Inr True"
  then obtain sel tk hub where sel: "showQuickPick env provisionIothubSelection = Inr (Some sel)"
    and tk: "toolkit env = Some tk"
    and hub: "(detail sel = Some ''select'' \<and> selectIoTHub tk = Inr (Some hub)) \<or>
          (detail sel = Some ''create'' \<and> createIoTHub tk = Inr (Some hub))"
    using IoTHub_provision_True_inv [of env this w] by blast
  obtain w0 where w0: "IoTHub_provision env this w = IoTHub_store env this (Some hub) w0"
    using IoTHub_provision_chosen_trace [OF sel tk hub, of w this] by blast
  with ok have "fst (IoTHub_store env this (Some hub) w0) = Inr True" by simp
  then obtain cs key ev where cs: "iotHubConnectionString hub = Some cs" "cs \<noteq> []"
    and key: "sharedAccessKeyMatches cs = Some key" and ev: "events hub = Some ev"
    and rej: "configRejects env ConfigKey_iotHubConnectionString cs = None"
      "configRejects env ConfigKey_eventHubConnectionString
         (eventHub_string (endpoint ev) key) = None"
      "configRejects env ConfigKey_eventHubConnectionPath (path ev) = None"
    using IoTHub_store_True_inv [of env this "Some hub" w0] by auto
  obtain w1 pre where run: "config w1 = config w" "filter is_ConfigUpdate pre = []"
    "config (snd (IoTHub_provision env this w)) =
       config (snd (IoTHub_store env this (Some hub) w1))"
    "run_trace (IoTHub_provision env this) w = pre @
       [ConfigUpdate ConfigKey_iotHubConnectionString cs,
        ConfigUpdate ConfigKey_eventHubConnectionString (eventHub_string (endpoint ev) key),
        ConfigUpdate ConfigKey_eventHubConnectionPath (path ev)]
       @ (if channel this
          then [ChannelShow, ChannelAppendLine ''IoT Hub provision succeeded.'']
          else [])"
    using IoTHub_provision_parsed [OF sel tk hub cs key ev, of w this] rej by auto
  have str: "eventHub_string (endpoint ev) key =
      ''Endpoint='' @ endpoint ev @ '';SharedAccessKeyName=iothubowner;SharedAccessKey='' @ key"
    by (simp add: eventHub_string_def)
  have writes: "filter is_ConfigUpdate (run_trace (IoTHub_provision env this) w) =
          [ConfigUpdate ConfigKey_iotHubConnectionString cs,
           ConfigUpdate ConfigKey_eventHubConnectionString
             (''Endpoint='' @ endpoint ev
                @ '';SharedAccessKeyName=iothubowner;SharedAccessKey='' @ key),
           ConfigUpdate ConfigKey_eventHubConnectionPath (path ev)]"
    unfolding run(4) using run(2) by (simp add: str)
  have conf: "config (snd (IoTHub_provision env this w)) = (config w)
          (ConfigKey_iotHubConnectionString \<mapsto> cs,
           ConfigKey_eventHubConnectionString \<mapsto>
             ''Endpoint='' @ endpoint ev
                @ '';SharedAccessKeyName=iothubowner;SharedAccessKey='' @ key,
           ConfigKey_eventHubConnectionPath \<mapsto> path ev)"
    unfolding run(3) IoTHub_store_parsed [OF cs key ev] using rej run(1) by (simp add: str)
  from sel tk hub cs(1) key ev writes conf
  show "\<exists>sel tk hub cs key ev.
        showQuickPick env provisionIothubSelection = Inr (Some sel) \<and> toolkit env = Some tk
      \<and> ((detail sel = Some ''select'' \<and> selectIoTHub tk = Inr (Some hub)) \<or>
          (detail sel = Some ''create'' \<and> createIoTHub tk = Inr (Some hub)))
      \<and> iotHubConnectionString hub = Some cs \<and> sharedAccessKeyMatches cs = Some key
      \<and> events hub = Some ev
      \<and> filter is_ConfigUpdate (run_trace (IoTHub_provision env this) w) =
          [ConfigUpdate ConfigKey_iotHubConnectionString cs,
           ConfigUpdate ConfigKey_eventHubConnectionString
             (''Endpoint='' @ endpoint ev
                @ '';SharedAccessKeyName=iothubowner;SharedAccessKey='' @ key),
           ConfigUpdate ConfigKey_eventHubConnectionPath (path ev)]
      \<and> config (snd (IoTHub_provision env this w)) = (config w)
          (ConfigKey_iotHubConnectionString \<mapsto> cs,
           ConfigKey_eventHubConnectionString \<mapsto>
             ''Endpoint='' @ endpoint ev
                @ '';SharedAccessKeyName=iothubowner;SharedAccessKey='' @ key,
           ConfigKey_eventHubConnectionPath \<mapsto> path ev)"
    by (intro exI conjI)
next
  assume h: "showQuickPick env provisionIothubSelection = Inr (Some sel') \<and> toolkit env = Some tk'
      \<and> ((detail sel' = Some ''select'' \<and> selectIoTHub tk' = Inr (Some hub')) \<or>
          (detail sel' = Some ''create'' \<and> createIoTHub tk' = Inr (Some hub')))
      \<and> iotHubConnectionString hub' = Some cs' \<and> cs' \<noteq> []
      \<and> sharedAccessKeyMatches cs' = Some key' \<and> events hub' = Some ev'
      \<and> configRejects env ConfigKey_iotHubConnectionString cs' = None
      \<and> configRejects env ConfigKey_eventHubConnectionString
             (''Endpoint='' @ endpoint ev'
                @ '';SharedAccessKeyName=iothubowner;SharedAccessKey='' @ key') = None
      \<and> configRejects env ConfigKey_eventHubConnectionPath (path ev') = None"
  then obtain w0 where "IoTHub_provision env this w = IoTHub_store env this (Some hub') w0"
    using IoTHub_provision_chosen_trace [of env sel' tk' "Some hub'" w this] by blast
  moreover have "fst (IoTHub_store env this (Some hub') w0) = Inr True"
    using h IoTHub_store_parsed [of hub' cs' key' ev' env this w0]
    by (simp add: eventHub_string_def)
  ultimately show "fst (IoTHub_provision env this w) = Inr True" by simp
qed


theorem provision_success_three_writes_witness:
  "fst (IoTHub_provision env_ok \<lparr>channel = True\<rparr> world_empty) = Inr True
   \<and> filter is_ConfigUpdate (run_trace (IoTHub_provision env_ok \<lparr>channel = True\<rparr>) world_empty) =
       [ConfigUpdate ConfigKey_iotHubConnectionString
          ''HostName=h.azure-devices.net;SharedAccessKeyName=iothubowner;SharedAccessKey=abc='',
        ConfigUpdate ConfigKey_eventHubConnectionString
          ''Endpoint=sb://e.servicebus.windows.net/;SharedAccessKeyName=iothubowner;SharedAccessKey=abc='',
        ConfigUpdate ConfigKey_eventHubConnectionPath ''hub1'']
   \<and> config (snd (IoTHub_provision env_ok \<lparr>channel = True\<rparr> world_empty)) =
       [ConfigKey_iotHubConnectionString \<mapsto>
          ''HostName=h.azure-devices.net;SharedAccessKeyName=iothubowner;SharedAccessKey=abc='',
        ConfigKey_eventHubConnectionString \<mapsto>
          ''Endpoint=sb://e.servicebus.windows.net/;SharedAccessKeyName=iothubowner;SharedAccessKey=abc='',
        ConfigKey_eventHubConnectionPath \<mapsto> ''hub1'']"
proof -
  have pick: "showQuickPick env_ok provisionIothubSelection =
      Inr (Some \<lparr>label = ''Select an existing IoT Hub'',
                 description = Some ''Select an existing IoT Hub'', detail = Some ''select''\<rparr>)"
    by (simp add: env_ok_def pick_first_def provisionIothubSelection_def)
  have tk: "toolkit env_ok =
      Some \<lparr>selectIoTHub = Inr (Some hub_ok), createIoTHub = Inr (Some hub_no_key)\<rparr>"
    by (simp add: env_ok_def)
  have cs: "iotHubConnectionString hub_ok =
      Some ''HostName=h.azure-devices.net;SharedAccessKeyName=iothubowner;SharedAccessKey=abc=''"
    by (simp add: hub_ok_def)
  have key: "sharedAccessKeyMatches
      ''HostName=h.azure-devices.net;SharedAccessKeyName=iothubowner;SharedAccessKey=abc=''
      = Some ''abc=''"
    by (simp add: sharedAccessKeyMatches_def match_group_def)
  have ev: "events hub_ok = Some \<lparr>endpoint = ''sb://e.servicebus.windows.net/'', path = ''hub1''\<rparr>"
    by (simp add: hub_ok_def)
  have rej: "configRejects env_ok k v = None" for k v by (simp add: env_ok_def)
  note inst = provision_success_three_writes [where env = env_ok and this = "\<lparr>channel = True\<rparr>"
      and w = world_empty
      and sel' = "\<lparr>label = ''Select an existing IoT Hub'',
                 description = Some ''Select an existing IoT Hub'', detail = Some ''select''\<rparr>"
      and tk' = "\<lparr>selectIoTHub = Inr (Some hub_ok), createIoTHub = Inr (Some hub_no_key)\<rparr>"
      and hub' = hub_ok
      and cs' = "''HostName=h.azure-devices.net;SharedAccessKeyName=iothubowner;SharedAccessKey=abc=''"
      and key' = "''abc=''"
      and ev' = "\<lparr>endpoint = ''sb://e.servicebus.windows.net/'', path = ''hub1''\<rparr>"]
  have ok: "fst (IoTHub_provision env_ok \<lparr>channel = True\<rparr> world_empty) = Inr True"
    using inst pick tk cs key ev rej by simp
  with inst pick tk cs key ev show ?thesis
    by (auto simp: world_empty_def)
qed

subsection \<open>AzureFunctions: the runs\<close>

lemma catch_rethrow: "catch_eff m (\<lambda>error. throw error) = m"
  by (auto simp: catch_eff_def throw_def fun_eq_iff split: prod.splits sum.splits)

lemma provision_settings_run:
  "provision_settings env this sid fid a b c w =
     (if \<not> truthy a \<or> \<not> truthy b then
        (Inl (Error ''No event hub path or connection string found.''), w)
      else
        (case getCredentialFromSubscriptionId this sid of
           Inl e \<Rightarrow> (Inl e, w)
         | Inr None \<Rightarrow>
             (Inl (Error (''Unable to get credential for the subscription, id:'' @ sid @ ''.'')), w)
         | Inr (Some credential) \<Rightarrow>
             (case match_group ''/resourceGroups/'' (CHR ''/'') fid of
                None \<Rightarrow> (Inl (Error ''Cannot parse resource group from function app ID.''), w)
              | Some rg \<Rightarrow>
                  (case match_group ''/sites/'' (CHR ''/'') fid of
                     None \<Rightarrow> (Inl (Error ''Cannot parse function app name from function app ID.''), w)
                   | Some site \<Rightarrow>
                      (case listApplicationSettings env (credential, sid) rg site of
                         Inl e \<Rightarrow>
                           (Inl e, w\<lparr>trace := trace w @
                              [ConsoleLog, ListApplicationSettings (credential, sid) rg site]\<rparr>)
                       | Inr read \<Rightarrow>
                           ((case updateApplicationSettings env (credential, sid) rg site
                                   (inject_settings read a b c) of
                               Some e \<Rightarrow> Inl e | None \<Rightarrow> Inr True),
                            w\<lparr>trace := trace w @
                              [ConsoleLog, ListApplicationSettings (credential, sid) rg site,
                               ConsoleLog,
                               UpdateApplicationSettings (credential, sid) rg site
                                 (inject_settings read a b c)]\<rparr>))))))"
  by (simp add: provision_settings_def eff_defs split: option.splits sum.splits)


lemma propagates_settings: "propagates env (provision_settings env this sid fid a b c) w"
  unfolding propagates_def run_trace_def provision_settings_run
  by (auto split: option.splits sum.splits)


lemma provision_settings_grows:
  "snd (provision_settings env this sid fid a b c w) =
     w\<lparr>trace := trace w @ run_trace (provision_settings env this sid fid a b c) w\<rparr>"
  unfolding run_trace_def provision_settings_run
  by (simp split: option.splits sum.splits)

lemma provision_app_run:
  "provision_app env this sid w =
     (case executeCommand env ''azureFunctions.createFunctionApp'' [Str sid] of
        Inl e \<Rightarrow>
          (Inl e, w\<lparr>trace := trace w @
             [ExecuteCommand ''azureFunctions.createFunctionApp'' [Str sid]]\<rparr>)
      | Inr functionAppId \<Rightarrow>
          if truthy functionAppId then
            (case configRejects env ConfigKey_functionAppId (or_empty functionAppId) of
               Some e \<Rightarrow>
                 (Inl e, w\<lparr>trace := trace w @
                    [ExecuteCommand ''azureFunctions.createFunctionApp'' [Str sid],
                     ConfigUpdate ConfigKey_functionAppId (or_empty functionAppId)]\<rparr>)
             | None \<Rightarrow>
                 provision_settings env this sid (or_empty functionAppId)
                   (config w ConfigKey_eventHubConnectionString)
                   (config w ConfigKey_eventHubConnectionPath)
                   (config w ConfigKey_iotHubConnectionString)
                   (w\<lparr>config := (config w)(ConfigKey_functionAppId \<mapsto> or_empty functionAppId),
                      trace := trace w @
                        [ExecuteCommand ''azureFunctions.createFunctionApp'' [Str sid],
                         ConfigUpdate ConfigKey_functionAppId (or_empty functionAppId)]\<rparr>))
          else
            (Inl (Error ''Unable to create Azure Functions application. Please check the error and retry.''),
             w\<lparr>trace := trace w @
               [ExecuteCommand ''azureFunctions.createFunctionApp'' [Str sid]]\<rparr>))"
  by (simp add: provision_app_def eff_defs split: option.splits sum.splits)

lemma AzureFunctions_provision_run:
  "AzureFunctions_provision env this w =
     (case getSubscriptionList this of
        Inl e \<Rightarrow> (Inl e, w)
      | Inr items \<Rightarrow>
          (case showQuickPick env items of
             Inl e \<Rightarrow> (Inl e, w\<lparr>trace := trace w @ [ShowQuickPick items]\<rparr>)
           | Inr None \<Rightarrow> (Inr False, w\<lparr>trace := trace w @ [ShowQuickPick items]\<rparr>)
           | Inr (Some sub) \<Rightarrow>
               if \<not> truthy (description sub)
               then (Inr False, w\<lparr>trace := trace w @ [ShowQuickPick items]\<rparr>)
               else provision_app env this (or_empty (description sub))
                      (w\<lparr>trace := trace w @ [ShowQuickPick items]\<rparr>)))"
  unfolding AzureFunctions_provision_def catch_rethrow
  by (simp add: eff_defs split: option.splits sum.splits)

subsection \<open>AzureFunctions: the quick pick\<close>

text \<open>
  C10. With the Azure account extension present, \<^verbatim>\<open>getSubscriptionList\<close> returns a list
  that is not empty: with subscription filters, one item for each, in their order, whose
  label is the display name and whose description is the subscription id; with no filter,
  the one placeholder item, labelled \<open>No subscription found\<close>, whose description is the empty
  string.
\<close>

theorem getSubscriptionList_nonempty:
  assumes "azureAccountExtension this = Some ext"
  shows "\<exists>items. getSubscriptionList this = Inr items \<and> items \<noteq> []
    \<and> (filters ext \<noteq> [] \<longrightarrow>
          items = map (\<lambda>item. \<lparr>label = displayName item,
                                description = Some (subscriptionId item),
                                detail = None\<rparr>) (filters ext))
    \<and> (filters ext = [] \<longrightarrow>
          items = [\<lparr>label = ''No subscription found'', description = Some [],
                    detail = Some ''Click Azure account at bottom left corner and choose Select All''\<rparr>])"
  using assms by (auto simp: getSubscriptionList_def Let_def)

theorem getSubscriptionList_nonempty_witness:
  "getSubscriptionList functions_ok =
     Inr [\<lparr>label = ''Sub One'', description = Some ''s1'', detail = None\<rparr>]
   \<and> getSubscriptionList (functions_ok\<lparr>azureAccountExtension := Some \<lparr>filters = []\<rparr>\<rparr>) =
     Inr [\<lparr>label = ''No subscription found'', description = Some [],
           detail = Some ''Click Azure account at bottom left corner and choose Select All''\<rparr>]"
proof -
  have a: "azureAccountExtension functions_ok =
      Some \<lparr>filters = [\<lparr>displayName = ''Sub One'', subscriptionId = ''s1'', credentials = ''cred1''\<rparr>]\<rparr>"
    by (simp add: functions_ok_def)
  have b: "azureAccountExtension (functions_ok\<lparr>azureAccountExtension := Some \<lparr>filters = []\<rparr>\<rparr>)
      = Some \<lparr>filters = []\<rparr>"
    by simp
  show ?thesis
    using getSubscriptionList_nonempty [OF a] getSubscriptionList_nonempty [OF b]
    by auto
qed

text \<open>
  C8. When the quick pick of \<^verbatim>\<open>IoTHub.provision\<close> is dismissed, and when the quick pick of
  \<^verbatim>\<open>AzureFunctions.provision\<close> is dismissed or answered with an item whose description is
  empty or absent, the operation returns \<^verbatim>\<open>false\<close>; the quick pick is the only call it has
  made, and the config is as it was.
\<close>

theorem provision_dismissed_returns_false:
  "(showQuickPick env provisionIothubSelection = Inr None \<longrightarrow>
      IoTHub_provision env component w =
        (Inr False, w\<lparr>trace := trace w @ [ShowQuickPick provisionIothubSelection]\<rparr>))
   \<and> (getSubscriptionList this = Inr items \<and> showQuickPick env items = Inr picked
       \<and> (picked = None \<or> (\<exists>sub. picked = Some sub \<and> (description sub = None \<or> description sub = Some [])))
       \<longrightarrow> AzureFunctions_provision env this w =
        (Inr False, w\<lparr>trace := trace w @ [ShowQuickPick items]\<rparr>))"
  by (auto simp: IoTHub_provision_dismissed AzureFunctions_provision_run truthy_def)

theorem provision_dismissed_returns_false_witness:
  "IoTHub_provision (env_ok\<lparr>showQuickPick := \<lambda>items. Inr None\<rparr>) \<lparr>channel = True\<rparr> world_provisioned =
     (Inr False, world_provisioned\<lparr>trace := [ShowQuickPick provisionIothubSelection]\<rparr>)
   \<and> AzureFunctions_provision env_ok (functions_ok\<lparr>azureAccountExtension := Some \<lparr>filters = []\<rparr>\<rparr>)
        world_provisioned =
     (Inr False, world_provisioned\<lparr>trace :=
        [ShowQuickPick [\<lparr>label = ''No subscription found'', description = Some [],
           detail = Some ''Click Azure account at bottom left corner and choose Select All''\<rparr>]]\<rparr>)"
proof -
  have a: "showQuickPick (env_ok\<lparr>showQuickPick := \<lambda>items. Inr None\<rparr>) provisionIothubSelection
      = Inr None"
    by simp
  have b: "getSubscriptionList (functions_ok\<lparr>azureAccountExtension := Some \<lparr>filters = []\<rparr>\<rparr>) =
     Inr [\<lparr>label = ''No subscription found'', description = Some [],
           detail = Some ''Click Azure account at bottom left corner and choose Select All''\<rparr>]"
    by (simp add: getSubscriptionList_def)
  have c: "showQuickPick env_ok
      [\<lparr>label = ''No subscription found'', description = Some [],
           detail = Some ''Click Azure account at bottom left corner and choose Select All''\<rparr>]
     = Inr (Some \<lparr>label = ''No subscription found'', description = Some [],
           detail = Some ''Click Azure account at bottom left corner and choose Select All''\<rparr>)"
    by (simp add: env_ok_def pick_first_def)
  show ?thesis
    using a b c provision_dismissed_returns_false
      [of "env_ok\<lparr>showQuickPick := \<lambda>items. Inr None\<rparr>" "\<lparr>channel = True\<rparr>" world_provisioned
          "functions_ok\<lparr>azureAccountExtension := Some \<lparr>filters = []\<rparr>\<rparr>"]
      provision_dismissed_returns_false
      [of env_ok _ world_provisioned
          "functions_ok\<lparr>azureAccountExtension := Some \<lparr>filters = []\<rparr>\<rparr>"
          "[\<lparr>label = ''No subscription found'', description = Some [],
           detail = Some ''Click Azure account at bottom left corner and choose Select All''\<rparr>]"
          "Some \<lparr>label = ''No subscription found'', description = Some [],
           detail = Some ''Click Azure account at bottom left corner and choose Select All''\<rparr>"]
    by (simp add: world_provisioned_def)
qed

subsection \<open>AzureFunctions.provision: the function app\<close>


lemma AzureFunctions_provision_reaches_settings:
  assumes items: "getSubscriptionList this = Inr items"
    and pick: "showQuickPick env items = Inr (Some sub)"
    and sid: "description sub = Some sid" "sid \<noteq> []"
    and fid: "executeCommand env ''azureFunctions.createFunctionApp'' [Str sid] = Inr (Some fid)"
      "fid \<noteq> []"
    and acc: "configRejects env ConfigKey_functionAppId fid = None"
  shows "AzureFunctions_provision env this w =
     provision_settings env this sid fid
       (config w ConfigKey_eventHubConnectionString)
       (config w ConfigKey_eventHubConnectionPath)
       (config w ConfigKey_iotHubConnectionString)
       (w\<lparr>config := (config w)(ConfigKey_functionAppId \<mapsto> fid),
          trace := trace w @
            [ShowQuickPick items,
             ExecuteCommand ''azureFunctions.createFunctionApp'' [Str sid],
             ConfigUpdate ConfigKey_functionAppId fid]\<rparr>)"
  using assms
  by (simp add: AzureFunctions_provision_run provision_app_run truthy_def or_empty_def)



text \<open>
  C9. When \<^verbatim>\<open>azureFunctions.createFunctionApp\<close> returns a non-empty id \<open>fid\<close> and the config
  accepts it, \<^verbatim>\<open>AzureFunctions.provision\<close> writes \<open>fid\<close> to \<^verbatim>\<open>functionAppId\<close> as its third
  call, right after the quick pick and the command and before any check. Whatever happens
  next, the config at the end is the initial one with \<^verbatim>\<open>functionAppId\<close> set to \<open>fid\<close>: in
  particular when \<^verbatim>\<open>provision\<close> throws because an event hub value is missing, because no
  credential is found, or because the resource group or the site name cannot be parsed
  from \<open>fid\<close>.
\<close>

theorem functionAppId_persisted_before_checks:
  assumes items: "getSubscriptionList this = Inr items"
    and pick: "showQuickPick env items = Inr (Some sub)"
    and sid: "description sub = Some sid" "sid \<noteq> []"
    and fid: "executeCommand env ''azureFunctions.createFunctionApp'' [Str sid] = Inr (Some fid)"
      "fid \<noteq> []"
    and acc: "configRejects env ConfigKey_functionAppId fid = None"
  shows "config (snd (AzureFunctions_provision env this w)) =
           (config w)(ConfigKey_functionAppId \<mapsto> fid)
    \<and> take 3 (run_trace (AzureFunctions_provision env this) w) =
         [ShowQuickPick items,
          ExecuteCommand ''azureFunctions.createFunctionApp'' [Str sid],
          ConfigUpdate ConfigKey_functionAppId fid]
    \<and> (\<not> truthy (config w ConfigKey_eventHubConnectionString)
        \<or> \<not> truthy (config w ConfigKey_eventHubConnectionPath) \<longrightarrow>
        fst (AzureFunctions_provision env this w) =
          Inl (Error ''No event hub path or connection string found.''))
    \<and> (truthy (config w ConfigKey_eventHubConnectionString)
        \<and> truthy (config w ConfigKey_eventHubConnectionPath)
        \<and> getCredentialFromSubscriptionId this sid = Inr None \<longrightarrow>
        fst (AzureFunctions_provision env this w) =
          Inl (Error (''Unable to get credential for the subscription, id:'' @ sid @ ''.'')))
    \<and> (truthy (config w ConfigKey_eventHubConnectionString)
        \<and> truthy (config w ConfigKey_eventHubConnectionPath)
        \<and> getCredentialFromSubscriptionId this sid = Inr (Some cred)
        \<and> match_group ''/resourceGroups/'' (CHR ''/'') fid = None \<longrightarrow>
        fst (AzureFunctions_provision env this w) =
          Inl (Error ''Cannot parse resource group from function app ID.''))
    \<and> (truthy (config w ConfigKey_eventHubConnectionString)
        \<and> truthy (config w ConfigKey_eventHubConnectionPath)
        \<and> getCredentialFromSubscriptionId this sid = Inr (Some cred)
        \<and> match_group ''/resourceGroups/'' (CHR ''/'') fid = Some rg
        \<and> match_group ''/sites/'' (CHR ''/'') fid = None \<longrightarrow>
        fst (AzureFunctions_provision env this w) =
          Inl (Error ''Cannot parse function app name from function app ID.''))"
proof -
  define w2 where "w2 = w\<lparr>config := (config w)(ConfigKey_functionAppId \<mapsto> fid),
          trace := trace w @
            [ShowQuickPick items,
             ExecuteCommand ''azureFunctions.createFunctionApp'' [Str sid],
             ConfigUpdate ConfigKey_functionAppId fid]\<rparr>"
  let ?settings = "provision_settings env this sid fid
       (config w ConfigKey_eventHubConnectionString)
       (config w ConfigKey_eventHubConnectionPath)
       (config w ConfigKey_iotHubConnectionString)"
  have run: "AzureFunctions_provision env this w = ?settings w2"
    unfolding w2_def by (rule AzureFunctions_provision_reaches_settings [OF assms])
  have grows: "snd (?settings w2) = w2\<lparr>trace := trace w2 @ run_trace ?settings w2\<rparr>"
    by (rule provision_settings_grows)
  have "config (snd (AzureFunctions_provision env this w)) =
           (config w)(ConfigKey_functionAppId \<mapsto> fid)"
    unfolding run grows by (simp add: w2_def)
  moreover have "take 3 (run_trace (AzureFunctions_provision env this) w) =
         [ShowQuickPick items,
          ExecuteCommand ''azureFunctions.createFunctionApp'' [Str sid],
          ConfigUpdate ConfigKey_functionAppId fid]"
    unfolding run_trace_def [of "AzureFunctions_provision env this"] run grows
    by (simp add: w2_def)
  moreover have "\<not> truthy (config w ConfigKey_eventHubConnectionString)
        \<or> \<not> truthy (config w ConfigKey_eventHubConnectionPath) \<longrightarrow>
        fst (AzureFunctions_provision env this w) =
          Inl (Error ''No event hub path or connection string found.'')"
    unfolding run provision_settings_run by simp
  moreover have "truthy (config w ConfigKey_eventHubConnectionString)
        \<and> truthy (config w ConfigKey_eventHubConnectionPath)
        \<and> getCredentialFromSubscriptionId this sid = Inr None \<longrightarrow>
        fst (AzureFunctions_provision env this w) =
          Inl (Error (''Unable to get credential for the subscription, id:'' @ sid @ ''.''))"
    unfolding run provision_settings_run by simp
  moreover have "truthy (config w ConfigKey_eventHubConnectionString)
        \<and> truthy (config w ConfigKey_eventHubConnectionPath)
        \<and> getCredentialFromSubscriptionId this sid = Inr (Some cred)
        \<and> match_group ''/resourceGroups/'' (CHR ''/'') fid = None \<longrightarrow>
        fst (AzureFunctions_provision env this w) =
          Inl (Error ''Cannot parse resource group from function app ID.'')"
    unfolding run provision_settings_run by simp
  moreover have "truthy (config w ConfigKey_eventHubConnectionString)
        \<and> truthy (config w ConfigKey_eventHubConnectionPath)
        \<and> getCredentialFromSubscriptionId this sid = Inr (Some cred)
        \<and> match_group ''/resourceGroups/'' (CHR ''/'') fid = Some rg
        \<and> match_group ''/sites/'' (CHR ''/'') fid = None \<longrightarrow>
        fst (AzureFunctions_provision env this w) =
          Inl (Error ''Cannot parse function app name from function app ID.'')"
    unfolding run provision_settings_run by simp
  ultimately show ?thesis by blast
qed


theorem functionAppId_persisted_before_checks_witness:
  "fst (AzureFunctions_provision env_ok functions_ok world_empty) =
     Inl (Error ''No event hub path or connection string found.'')
   \<and> config (snd (AzureFunctions_provision env_ok functions_ok world_empty)) =
       [ConfigKey_functionAppId \<mapsto>
          ''/subscriptions/s1/resourceGroups/rg1/providers/Microsoft.Web/sites/app1'']
   \<and> fst (AzureFunctions_provision
         (env_ok\<lparr>executeCommand := \<lambda>c args. Inr (Some ''/subscriptions/s1/resourceGroups/rg1'')\<rparr>)
         functions_ok world_provisioned) =
     Inl (Error ''Cannot parse function app name from function app ID.'')
   \<and> config (snd (AzureFunctions_provision
         (env_ok\<lparr>executeCommand := \<lambda>c args. Inr (Some ''/subscriptions/s1/resourceGroups/rg1'')\<rparr>)
         functions_ok world_provisioned)) ConfigKey_functionAppId =
     Some ''/subscriptions/s1/resourceGroups/rg1''"
proof -
  let ?item = "\<lparr>label = ''Sub One'', description = Some ''s1'', detail = None\<rparr>"
  let ?env2 = "env_ok\<lparr>executeCommand := \<lambda>c args. Inr (Some ''/subscriptions/s1/resourceGroups/rg1'')\<rparr>"
  have items: "getSubscriptionList functions_ok = Inr [?item]"
    by (simp add: getSubscriptionList_def functions_ok_def)
  have pick: "showQuickPick env_ok [?item] = Inr (Some ?item)"
    and pick2: "showQuickPick ?env2 [?item] = Inr (Some ?item)"
    by (simp_all add: env_ok_def pick_first_def)
  have sid: "description ?item = Some ''s1''" "''s1'' \<noteq> []" by simp_all
  have fid: "executeCommand env_ok ''azureFunctions.createFunctionApp'' [Str ''s1''] =
      Inr (Some ''/subscriptions/s1/resourceGroups/rg1/providers/Microsoft.Web/sites/app1'')"
    "''/subscriptions/s1/resourceGroups/rg1/providers/Microsoft.Web/sites/app1'' \<noteq> []"
    by (simp_all add: env_ok_def)
  have fid2: "executeCommand ?env2 ''azureFunctions.createFunctionApp'' [Str ''s1''] =
      Inr (Some ''/subscriptions/s1/resourceGroups/rg1'')"
    "''/subscriptions/s1/resourceGroups/rg1'' \<noteq> []"
    by simp_all
  have acc: "configRejects env_ok ConfigKey_functionAppId v = None"
    and acc2: "configRejects ?env2 ConfigKey_functionAppId v = None" for v
    by (simp_all add: env_ok_def)
  have cred: "getCredentialFromSubscriptionId functions_ok ''s1'' = Inr (Some ''cred1'')"
    by (simp add: getCredentialFromSubscriptionId_def functions_ok_def)
  have rg: "match_group ''/resourceGroups/'' (CHR ''/'') ''/subscriptions/s1/resourceGroups/rg1''
      = Some ''rg1''"
    and site: "match_group ''/sites/'' (CHR ''/'') ''/subscriptions/s1/resourceGroups/rg1'' = None"
    by (simp_all add: match_group_def)
  have a: "\<not> truthy (config world_empty ConfigKey_eventHubConnectionString)"
    by (simp add: world_empty_def truthy_def)
  have b: "truthy (config world_provisioned ConfigKey_eventHubConnectionString)"
    "truthy (config world_provisioned ConfigKey_eventHubConnectionPath)"
    by (simp_all add: world_provisioned_def truthy_def)
  show ?thesis
    using functionAppId_persisted_before_checks [OF items pick sid fid acc, of world_empty]
      functionAppId_persisted_before_checks [OF items pick2 sid fid2 acc2, of world_provisioned
        "''cred1''" "''rg1''"]
      a b cred rg site
    by (simp add: world_empty_def)
qed

subsection \<open>The example run of AzureFunctions.provision\<close>


lemma functions_ok_items: "getSubscriptionList functions_ok =
    Inr [\<lparr>label = ''Sub One'', description = Some ''s1'', detail = None\<rparr>]"
  by (simp add: getSubscriptionList_def functions_ok_def)








subsection \<open>Rejections\<close>

lemma rejected_is_call: "rejected env ev = Some e \<Longrightarrow> is_call ev"
  by (cases ev) simp_all

lemma propagates_explicit:
  assumes "trace (snd (m w)) = trace w @ evs"
    and "\<forall>ev e. ev \<in> set evs \<and> rejected env ev = Some e \<longrightarrow>
           fst (m w) = Inl e \<and> last (filter is_call evs) = ev
           \<and> length (filter (\<lambda>x. x = ev) evs) = 1"
  shows "propagates env m w"
  using assms by (simp add: propagates_def run_trace_def)

lemma propagates_after:
  assumes run: "m w = k w1" and tr: "trace w1 = trace w @ pre"
    and pre: "\<forall>ev \<in> set pre. rejected env ev = None"
    and grows: "trace (snd (k w1)) = trace w1 @ run_trace k w1"
    and k: "propagates env k w1"
  shows "propagates env m w"
  unfolding propagates_def
proof (intro allI impI)
  fix ev e
  assume h: "ev \<in> set (run_trace m w) \<and> rejected env ev = Some e"
  have rt: "run_trace m w = pre @ run_trace k w1"
    unfolding run_trace_def [of m w] run grows tr by simp
  have notpre: "ev \<notin> set pre" using h pre by auto
  with h rt have in_k: "ev \<in> set (run_trace k w1)" by simp
  with k h have kk: "fst (k w1) = Inl e" "last (filter is_call (run_trace k w1)) = ev"
    "length (filter (\<lambda>x. x = ev) (run_trace k w1)) = 1"
    unfolding propagates_def by blast+
  have "is_call ev" using h rejected_is_call by blast
  with in_k have ne: "filter is_call (run_trace k w1) \<noteq> []"
    by (auto simp: filter_empty_conv)
  have none: "filter (\<lambda>x. x = ev) pre = []"
    using notpre by (auto simp: filter_empty_conv)
  show "fst (m w) = Inl e \<and> last (filter is_call (run_trace m w)) = ev
      \<and> length (filter (\<lambda>x. x = ev) (run_trace m w)) = 1"
    unfolding rt run using kk ne none by simp
qed

lemma provision_app_grows:
  "trace (snd (provision_app env this sid w)) =
     trace w @ run_trace (provision_app env this sid) w"
  unfolding run_trace_def [of "provision_app env this sid" w] provision_app_run
  by (simp add: provision_settings_grows split: sum.splits option.splits)

lemma propagates_app: "propagates env (provision_app env this sid) w"
proof (cases "executeCommand env ''azureFunctions.createFunctionApp'' [Str sid]")
  case (Inl e)
  show ?thesis
    by (rule propagates_explicit [where evs =
          "[ExecuteCommand ''azureFunctions.createFunctionApp'' [Str sid]]"])
      (simp_all add: provision_app_run Inl)
next
  case (Inr functionAppId)
  show ?thesis
  proof (cases "truthy functionAppId")
    case False
    show ?thesis
      by (rule propagates_explicit [where evs =
            "[ExecuteCommand ''azureFunctions.createFunctionApp'' [Str sid]]"])
        (simp_all add: provision_app_run Inr False)
  next
    case True
    show ?thesis
    proof (cases "configRejects env ConfigKey_functionAppId (or_empty functionAppId)")
      case (Some e)
      show ?thesis
        by (rule propagates_explicit [where evs =
            "[ExecuteCommand ''azureFunctions.createFunctionApp'' [Str sid],
              ConfigUpdate ConfigKey_functionAppId (or_empty functionAppId)]"])
          (auto simp: provision_app_run Inr True Some)
    next
      case None
      show ?thesis
        by (rule propagates_after [where pre =
            "[ExecuteCommand ''azureFunctions.createFunctionApp'' [Str sid],
              ConfigUpdate ConfigKey_functionAppId (or_empty functionAppId)]"
            and k = "provision_settings env this sid (or_empty functionAppId)
                   (config w ConfigKey_eventHubConnectionString)
                   (config w ConfigKey_eventHubConnectionPath)
                   (config w ConfigKey_iotHubConnectionString)"
            and ?w1.0 = "w\<lparr>config := (config w)(ConfigKey_functionAppId \<mapsto> or_empty functionAppId),
                      trace := trace w @
                        [ExecuteCommand ''azureFunctions.createFunctionApp'' [Str sid],
                         ConfigUpdate ConfigKey_functionAppId (or_empty functionAppId)]\<rparr>"])
          (simp_all add: provision_app_run Inr True None provision_settings_grows
            propagates_settings)
    qed
  qed
qed


lemma propagates_provision: "propagates env (AzureFunctions_provision env this) w"
proof (cases "getSubscriptionList this")
  case (Inl e)
  show ?thesis
    by (rule propagates_explicit [where evs = "[]"])
      (simp_all add: AzureFunctions_provision_run Inl)
next
  case (Inr items)
  show ?thesis
  proof (cases "\<exists>sub. showQuickPick env items = Inr (Some sub) \<and> truthy (description sub)")
    case False
    show ?thesis
      by (rule propagates_explicit [where evs = "[ShowQuickPick items]"])
        (use False in \<open>auto simp: AzureFunctions_provision_run Inr
            split: sum.splits option.splits\<close>)
  next
    case True
    then obtain sub where sub: "showQuickPick env items = Inr (Some sub)"
      "truthy (description sub)" by blast
    show ?thesis
      by (rule propagates_after [where pre = "[ShowQuickPick items]"
            and k = "provision_app env this (or_empty (description sub))"
            and ?w1.0 = "w\<lparr>trace := trace w @ [ShowQuickPick items]\<rparr>"])
        (simp_all add: AzureFunctions_provision_run Inr sub provision_app_grows propagates_app)
  qed
qed

lemma AzureFunctions_create_run:
  "AzureFunctions_create env this w =
     (if \<not> existsSync env (azureFunctionsPath this) then
        (Inl (Error (''Azure Functions folder doesn't exist: '' @ azureFunctionsPath this)),
         w\<lparr>trace := trace w @ [ConsoleLog, ExistsSync (azureFunctionsPath this)]\<rparr>)
      else
        ((case executeCommand env ''azureFunctions.createNewProject''
                 (createNewProject_args (azureFunctionsPath this)) of
            Inl e \<Rightarrow> Inl e | Inr _ \<Rightarrow> Inr True),
         w\<lparr>trace := trace w @
           [ConsoleLog, ExistsSync (azureFunctionsPath this),
            ExecuteCommand ''azureFunctions.createNewProject''
              (createNewProject_args (azureFunctionsPath this))]\<rparr>))"
  unfolding AzureFunctions_create_def catch_rethrow
  by (simp add: eff_defs split: sum.splits)

lemma AzureFunctions_deploy_run:
  "AzureFunctions_deploy env this w =
     (case executeCommand env ''azureFunctions.deploy''
             [Str (azureFunctionsPath this), deploy_arg (config w ConfigKey_functionAppId)] of
        Inl e \<Rightarrow>
          (Inl e, w\<lparr>trace := trace w
             @ (if channel this
                then [ChannelShow, ChannelAppendLine ''Deploying Azure Functions App...'',
                      SetInterval]
                else [])
             @ [ExecuteCommand ''azureFunctions.deploy''
                  [Str (azureFunctionsPath this), deploy_arg (config w ConfigKey_functionAppId)]]
             @ (if channel this then [ClearInterval, ChannelAppendLine ''.''] else [])\<rparr>)
      | Inr _ \<Rightarrow>
          (Inr True, w\<lparr>trace := trace w
             @ (if channel this
                then [ChannelShow, ChannelAppendLine ''Deploying Azure Functions App...'',
                      SetInterval]
                else [])
             @ [ExecuteCommand ''azureFunctions.deploy''
                  [Str (azureFunctionsPath this), deploy_arg (config w ConfigKey_functionAppId)],
                ConsoleLog]
             @ (if channel this then [ClearInterval, ChannelAppendLine ''.''] else [])\<rparr>))"
  by (simp add: AzureFunctions_deploy_def deploy_done_def eff_defs split: sum.splits)

lemma propagates_create: "propagates env (AzureFunctions_create env this) w"
  by (rule propagates_explicit [where evs =
        "if \<not> existsSync env (azureFunctionsPath this)
         then [ConsoleLog, ExistsSync (azureFunctionsPath this)]
         else [ConsoleLog, ExistsSync (azureFunctionsPath this),
            ExecuteCommand ''azureFunctions.createNewProject''
              (createNewProject_args (azureFunctionsPath this))]"])
    (auto simp: AzureFunctions_create_run split: sum.splits)

lemma propagates_deploy: "propagates env (AzureFunctions_deploy env this) w"
proof (cases "executeCommand env ''azureFunctions.deploy''
             [Str (azureFunctionsPath this), deploy_arg (config w ConfigKey_functionAppId)]")
  case (Inl e)
  show ?thesis
    by (rule propagates_explicit [where evs =
        "(if channel this
                then [ChannelShow, ChannelAppendLine ''Deploying Azure Functions App...'',
                      SetInterval]
                else [])
             @ [ExecuteCommand ''azureFunctions.deploy''
                  [Str (azureFunctionsPath this), deploy_arg (config w ConfigKey_functionAppId)]]
             @ (if channel this then [ClearInterval, ChannelAppendLine ''.''] else [])"])
      (auto simp: AzureFunctions_deploy_run Inl)
next
  case (Inr v)
  show ?thesis
    by (rule propagates_explicit [where evs =
        "(if channel this
                then [ChannelShow, ChannelAppendLine ''Deploying Azure Functions App...'',
                      SetInterval]
                else [])
             @ [ExecuteCommand ''azureFunctions.deploy''
                  [Str (azureFunctionsPath this), deploy_arg (config w ConfigKey_functionAppId)],
                ConsoleLog]
             @ (if channel this then [ClearInterval, ChannelAppendLine ''.''] else [])"])
      (auto simp: AzureFunctions_deploy_run Inr)
qed

text \<open>
  C6. In \<^verbatim>\<open>AzureFunctions.create\<close>, \<^verbatim>\<open>provision\<close> and \<^verbatim>\<open>deploy\<close>, whenever an external call of
  the run (quick pick, VS Code command, config write, ARM client call) is rejected with an
  error, the operation's result is that same error, the rejected call was made once, and
  no call follows it: nothing is retried and nothing is attempted in its place. (What
  \<^verbatim>\<open>deploy\<close> still does after the rejection is to clear its timer and end the line of dots
  on the channel, which are not calls.)
\<close>

theorem rejections_propagate_unchanged:
  "propagates env (AzureFunctions_create env this) w
   \<and> propagates env (AzureFunctions_provision env this) w
   \<and> propagates env (AzureFunctions_deploy env this) w"
  by (intro conjI propagates_create propagates_provision propagates_deploy)


theorem rejections_propagate_unchanged_witness:
  "fst (AzureFunctions_create
          (env_ok\<lparr>executeCommand := \<lambda>c args. Inl (External ''ECONNRESET'')\<rparr>)
          functions_ok world_provisioned) = Inl (External ''ECONNRESET'')
   \<and> fst (AzureFunctions_provision
          (env_ok\<lparr>executeCommand := \<lambda>c args. Inl (External ''ECONNRESET'')\<rparr>)
          functions_ok world_provisioned) = Inl (External ''ECONNRESET'')
   \<and> fst (AzureFunctions_deploy
          (env_ok\<lparr>executeCommand := \<lambda>c args. Inl (External ''ECONNRESET'')\<rparr>)
          functions_ok world_provisioned) = Inl (External ''ECONNRESET'')
   \<and> last (filter is_call (run_trace (AzureFunctions_deploy
          (env_ok\<lparr>executeCommand := \<lambda>c args. Inl (External ''ECONNRESET'')\<rparr>)
          functions_ok) world_provisioned)) =
       ExecuteCommand ''azureFunctions.deploy'' [Str ''/home/u/project/Functions'', Undefined]"
proof -
  let ?env = "env_ok\<lparr>executeCommand := \<lambda>c args. Inl (External ''ECONNRESET'')\<rparr>"
  let ?item = "\<lparr>label = ''Sub One'', description = Some ''s1'', detail = None\<rparr>"
  have rej: "rejected ?env (ExecuteCommand c args) = Some (External ''ECONNRESET'')" for c args
    by simp
  have pick: "showQuickPick env_ok [?item] = Inr (Some ?item)"
    by (simp add: env_ok_def pick_first_def)
  have a: "ExecuteCommand ''azureFunctions.createNewProject''
             (createNewProject_args ''/home/u/project/Functions'')
           \<in> set (run_trace (AzureFunctions_create ?env functions_ok) world_provisioned)"
    by (simp add: run_trace_def AzureFunctions_create_run functions_ok_def env_ok_def)
  have b: "ExecuteCommand ''azureFunctions.createFunctionApp'' [Str ''s1'']
           \<in> set (run_trace (AzureFunctions_provision ?env functions_ok) world_provisioned)"
    by (simp add: run_trace_def AzureFunctions_provision_run provision_app_run
        functions_ok_items pick truthy_def or_empty_def)
  have c: "ExecuteCommand ''azureFunctions.deploy'' [Str ''/home/u/project/Functions'', Undefined]
           \<in> set (run_trace (AzureFunctions_deploy ?env functions_ok) world_provisioned)"
    by (simp add: run_trace_def AzureFunctions_deploy_run functions_ok_def
        world_provisioned_def deploy_arg_def)
  show ?thesis
    using rejections_propagate_unchanged [of ?env functions_ok world_provisioned] a b c rej
    unfolding propagates_def by blast
qed

subsection \<open>AzureOperator\<close>

text \<open>
  C5. \<^verbatim>\<open>AzureOperator.Provision\<close> drives an \<^verbatim>\<open>IoTProject\<close>: it creates the project, loads it
  from the workspace root path and calls its \<^verbatim>\<open>provision()\<close>. \<^verbatim>\<open>AzureOperator.Deploy\<close> is to
  call the project's \<^verbatim>\<open>deploy()\<close> in the same way, and does not: its body is empty, and in
  the workspace below it returns with no call made.
\<close>

theorem AzureOperator_Deploy_calls_nothing:
  "run_trace (AzureOperator_Provision env_ok) world_empty =
     [ProjectNew, ProjectLoad (Some ''/home/u/project''), ProjectProvision]
   \<and> AzureOperator_Deploy env_ok world_empty = (Inr (), world_empty)
   \<and> run_trace (AzureOperator_Deploy env_ok) world_empty = []
   \<and> ProjectDeploy \<notin> set (run_trace (AzureOperator_Deploy env_ok) world_empty)"
  by (simp add: run_trace_def AzureOperator_Provision_def AzureOperator_Deploy_def eff_defs
      env_ok_def world_empty_def truthy_def)

end
